theory Spec2Isabelle
  imports Complex_Main
begin

text \<open>
  A model of the audio feature extraction and heuristic classification engine: the
  feature extractors, tempo estimators and instrument classifier of
  \<open>InstrumentDetector\<close>, the tempo and chroma functions and the file name taggers
  of \<open>AudioAnalyzer\<close> and \<open>AlgorithmicTaggingService\<close>, and the corpus
  aggregator \<open>MIDIAnalysisService\<close>, followed by the properties proved of them.
\<close>

section \<open>Numbers\<close>

text \<open>
  The engine computes on JavaScript numbers. Samples, magnitudes and sums are modelled
  as reals (rounding to binary floating point is not modelled); where the code can
  produce a value that is not a finite number (a division by zero, the maximum of an
  empty sequence, arithmetic on \<open>undefined\<close>) the result is a \<open>jsnum\<close>.
  Zero is taken as positive zero.
\<close>

datatype jsnum = Fin real | PosInf | NegInf | NaN

text \<open>Comparison of a number with a finite constant; every comparison with NaN is false.\<close>

fun js_lt :: "jsnum \<Rightarrow> real \<Rightarrow> bool" where
  "js_lt (Fin x) c = (x < c)"
| "js_lt NegInf c = True"
| "js_lt PosInf c = False"
| "js_lt NaN c = False"

fun js_gt :: "jsnum \<Rightarrow> real \<Rightarrow> bool" where
  "js_gt (Fin x) c = (x > c)"
| "js_gt PosInf c = True"
| "js_gt NegInf c = False"
| "js_gt NaN c = False"

fun js_ge :: "jsnum \<Rightarrow> real \<Rightarrow> bool" where
  "js_ge (Fin x) c = (x \<ge> c)"
| "js_ge PosInf c = True"
| "js_ge NegInf c = False"
| "js_ge NaN c = False"

text \<open>The quotient \<open>a / b\<close> of two finite numbers.\<close>

definition js_div :: "real \<Rightarrow> real \<Rightarrow> jsnum" where
  "js_div a b =
     (if b = 0 then (if a = 0 then NaN else if a > 0 then PosInf else NegInf)
      else Fin (a / b))"

text \<open>\<open>Math.round\<close>: the nearest integer, halves rounded up.\<close>

definition js_round :: "real \<Rightarrow> int" where
  "js_round x = \<lfloor>x + 1 / 2\<rfloor>"

text \<open>The remainder operator \<open>%\<close> on integers: the sign follows the dividend.\<close>

definition js_rem :: "int \<Rightarrow> int \<Rightarrow> int" where
  "js_rem a b = sgn a * (\<bar>a\<bar> mod \<bar>b\<bar>)"

text \<open>
  Comparisons of a finite number with a possibly infinite one, \<open>Math.sqrt\<close>,
  the clamp \<open>Math.max(lo, Math.min(hi, x))\<close>, a product with a positive constant and
  the quotient of a finite number by a possibly infinite one.
\<close>

fun ge_js :: "real \<Rightarrow> jsnum \<Rightarrow> bool" where
  "ge_js x (Fin c) = (x \<ge> c)"
| "ge_js x NegInf = True"
| "ge_js x PosInf = False"
| "ge_js x NaN = False"

fun le_js :: "real \<Rightarrow> jsnum \<Rightarrow> bool" where
  "le_js x (Fin c) = (x \<le> c)"
| "le_js x PosInf = True"
| "le_js x NegInf = False"
| "le_js x NaN = False"

fun js_sqrt :: "jsnum \<Rightarrow> jsnum" where
  "js_sqrt (Fin x) = (if x < 0 then NaN else Fin (sqrt x))"
| "js_sqrt PosInf = PosInf"
| "js_sqrt NegInf = NaN"
| "js_sqrt NaN = NaN"

fun js_clamp :: "real \<Rightarrow> real \<Rightarrow> jsnum \<Rightarrow> jsnum" where
  "js_clamp lo hi (Fin x) = Fin (max lo (min hi x))"
| "js_clamp lo hi PosInf = Fin (max lo hi)"
| "js_clamp lo hi NegInf = Fin lo"
| "js_clamp lo hi NaN = NaN"

fun js_round_num :: "jsnum \<Rightarrow> jsnum" where
  "js_round_num (Fin x) = Fin (of_int (js_round x))"
| "js_round_num PosInf = PosInf"
| "js_round_num NegInf = NegInf"
| "js_round_num NaN = NaN"

fun js_scale :: "real \<Rightarrow> jsnum \<Rightarrow> jsnum" where
  "js_scale c (Fin x) = Fin (c * x)"
| "js_scale c PosInf = (if c > 0 then PosInf else if c < 0 then NegInf else NaN)"
| "js_scale c NegInf = (if c > 0 then NegInf else if c < 0 then PosInf else NaN)"
| "js_scale c NaN = NaN"

fun js_div_by :: "real \<Rightarrow> jsnum \<Rightarrow> jsnum" where
  "js_div_by a (Fin b) = js_div a b"
| "js_div_by a PosInf = Fin 0"
| "js_div_by a NegInf = Fin 0"
| "js_div_by a NaN = NaN"

text \<open>\<open>Math.max(...xs)\<close>: minus infinity for the empty sequence.\<close>

fun js_max :: "real list \<Rightarrow> jsnum" where
  "js_max [] = NegInf"
| "js_max (x # xs) = (case js_max xs of Fin m \<Rightarrow> Fin (max x m) | _ \<Rightarrow> Fin x)"

section \<open>Data model\<close>

record AudioFeatures =
  spectralCentroid :: jsnum
  spectralRolloff :: jsnum
  zeroCrossingRate :: jsnum
  mfcc :: "jsnum list"
  chroma :: "real list"
  tempo :: jsnum
  energy :: jsnum
  attack :: jsnum
  sustain :: jsnum
  decay :: jsnum

section \<open>Instrument classifier\<close>

text \<open>The rule conditions of \<open>InstrumentDetector.classifyInstrument\<close>, in source order.\<close>

definition kick_rule :: "AudioFeatures \<Rightarrow> bool" where
  "kick_rule f \<longleftrightarrow>
     js_lt (spectralCentroid f) 200 \<and> js_gt (energy f) (7 / 10) \<and> js_lt (attack f) (1 / 100)"

definition snare_rule :: "AudioFeatures \<Rightarrow> bool" where
  "snare_rule f \<longleftrightarrow>
     js_gt (spectralCentroid f) 1000 \<and> js_lt (spectralCentroid f) 4000 \<and>
     js_gt (zeroCrossingRate f) (1 / 10) \<and> js_gt (energy f) (1 / 2)"

definition hihat_rule :: "AudioFeatures \<Rightarrow> bool" where
  "hihat_rule f \<longleftrightarrow>
     js_gt (spectralCentroid f) 3000 \<and> js_gt (zeroCrossingRate f) (15 / 100) \<and>
     js_lt (energy f) (4 / 10)"

definition bass_rule :: "AudioFeatures \<Rightarrow> bool" where
  "bass_rule f \<longleftrightarrow>
     js_lt (spectralCentroid f) 300 \<and> js_gt (energy f) (6 / 10) \<and> js_gt (sustain f) (3 / 10)"

definition lead_rule :: "AudioFeatures \<Rightarrow> bool" where
  "lead_rule f \<longleftrightarrow>
     js_gt (spectralCentroid f) 1000 \<and> js_lt (spectralCentroid f) 3000 \<and>
     js_gt (sustain f) (1 / 2)"

definition pad_rule :: "AudioFeatures \<Rightarrow> bool" where
  "pad_rule f \<longleftrightarrow>
     js_gt (spectralCentroid f) 500 \<and> js_lt (spectralCentroid f) 2000 \<and>
     js_gt (sustain f) (7 / 10) \<and> js_lt (energy f) (6 / 10)"

definition vocal_rule :: "AudioFeatures \<Rightarrow> bool" where
  "vocal_rule f \<longleftrightarrow>
     js_gt (spectralCentroid f) 1000 \<and> js_lt (spectralCentroid f) 3000 \<and>
     js_gt (zeroCrossingRate f) (5 / 100) \<and> js_lt (zeroCrossingRate f) (15 / 100)"

definition piano_rule :: "AudioFeatures \<Rightarrow> bool" where
  "piano_rule f \<longleftrightarrow>
     js_gt (spectralCentroid f) 500 \<and> js_lt (spectralCentroid f) 2000 \<and>
     js_lt (attack f) (5 / 100) \<and> js_gt (sustain f) (3 / 10)"

definition guitar_rule :: "AudioFeatures \<Rightarrow> bool" where
  "guitar_rule f \<longleftrightarrow>
     js_gt (spectralCentroid f) 200 \<and> js_lt (spectralCentroid f) 1500 \<and>
     js_gt (zeroCrossingRate f) (8 / 100) \<and> js_gt (energy f) (4 / 10)"

definition string_rule :: "AudioFeatures \<Rightarrow> bool" where
  "string_rule f \<longleftrightarrow>
     js_gt (spectralCentroid f) 500 \<and> js_lt (spectralCentroid f) 2000 \<and>
     js_gt (sustain f) (6 / 10) \<and> js_lt (attack f) (1 / 10)"

definition brass_rule :: "AudioFeatures \<Rightarrow> bool" where
  "brass_rule f \<longleftrightarrow>
     js_gt (spectralCentroid f) 300 \<and> js_lt (spectralCentroid f) 1500 \<and>
     js_gt (energy f) (1 / 2) \<and> js_gt (sustain f) (4 / 10)"

definition percussion_rule :: "AudioFeatures \<Rightarrow> bool" where
  "percussion_rule f \<longleftrightarrow>
     js_lt (attack f) (5 / 100) \<and> js_lt (decay f) (1 / 2) \<and> js_gt (energy f) (6 / 10)"

definition classifyInstrument :: "AudioFeatures \<Rightarrow> string" where
  "classifyInstrument f =
     (if kick_rule f then ''kick''
      else if snare_rule f then ''snare''
      else if hihat_rule f then ''hihat''
      else if bass_rule f then ''bass''
      else if lead_rule f then ''lead''
      else if pad_rule f then ''pad''
      else if vocal_rule f then ''vocal''
      else if piano_rule f then ''piano''
      else if guitar_rule f then ''guitar''
      else if string_rule f then ''string''
      else if brass_rule f then ''brass''
      else if percussion_rule f then ''percussion''
      else ''unknown'')"

text \<open>
  The rule table as the specification words it: an ordered list of conditions and
  labels, of which the first whose condition holds gives the label.
\<close>

definition rule_table :: "((AudioFeatures \<Rightarrow> bool) \<times> string) list" where
  "rule_table =
     [(kick_rule, ''kick''), (snare_rule, ''snare''), (hihat_rule, ''hihat''),
      (bass_rule, ''bass''), (lead_rule, ''lead''), (pad_rule, ''pad''),
      (vocal_rule, ''vocal''), (piano_rule, ''piano''), (guitar_rule, ''guitar''),
      (string_rule, ''string''), (brass_rule, ''brass''),
      (percussion_rule, ''percussion'')]"

fun first_match :: "((AudioFeatures \<Rightarrow> bool) \<times> string) list \<Rightarrow> AudioFeatures \<Rightarrow> string" where
  "first_match [] f = ''unknown''"
| "first_match ((p, l) # rs) f = (if p f then l else first_match rs f)"

text \<open>
  \<open>InstrumentDetector.calculateConfidence\<close>: a switch on the label with cases for
  kick, snare, hihat and bass and a default branch.
\<close>

definition bonus :: "bool \<Rightarrow> real \<Rightarrow> real" where
  "bonus b x = (if b then x else 0)"

definition calculateConfidence :: "AudioFeatures \<Rightarrow> string \<Rightarrow> real" where
  "calculateConfidence f instrumentType =
     (let confidence =
        (if instrumentType = ''kick'' then
           1 / 2 + bonus (js_lt (spectralCentroid f) 200) (2 / 10)
                 + bonus (js_gt (energy f) (7 / 10)) (2 / 10)
                 + bonus (js_lt (attack f) (1 / 100)) (1 / 10)
         else if instrumentType = ''snare'' then
           1 / 2 + bonus (js_gt (spectralCentroid f) 1000 \<and> js_lt (spectralCentroid f) 4000) (2 / 10)
                 + bonus (js_gt (zeroCrossingRate f) (1 / 10)) (2 / 10)
                 + bonus (js_gt (energy f) (1 / 2)) (1 / 10)
         else if instrumentType = ''hihat'' then
           1 / 2 + bonus (js_gt (spectralCentroid f) 3000) (2 / 10)
                 + bonus (js_gt (zeroCrossingRate f) (15 / 100)) (2 / 10)
                 + bonus (js_lt (energy f) (4 / 10)) (1 / 10)
         else if instrumentType = ''bass'' then
           1 / 2 + bonus (js_lt (spectralCentroid f) 300) (2 / 10)
                 + bonus (js_gt (energy f) (6 / 10)) (2 / 10)
                 + bonus (js_gt (sustain f) (3 / 10)) (1 / 10)
         else 3 / 10)
      in min 1 (max 0 confidence))"

section \<open>Zero-crossing rate\<close>

text \<open>
  \<open>InstrumentDetector.calculateZeroCrossingRate\<close>: the loop compares every sample
  from index 1 on with its predecessor.
\<close>

fun crossings :: "real list \<Rightarrow> nat" where
  "crossings (a # b # xs) = (if (b \<ge> 0) \<noteq> (a \<ge> 0) then 1 else 0) + crossings (b # xs)"
| "crossings xs = 0"

definition calculateZeroCrossingRate :: "real list \<Rightarrow> jsnum" where
  "calculateZeroCrossingRate channelData =
     js_div (real (crossings channelData)) (real (length channelData))"

section \<open>Tag synthesizer\<close>

text \<open>
  \<open>String.prototype.includes\<close> and \<open>toLowerCase\<close> on strings of ASCII characters.
\<close>

fun starts_with :: "string \<Rightarrow> string \<Rightarrow> bool" where
  "starts_with s [] = True"
| "starts_with [] (k # ks) = False"
| "starts_with (c # s) (k # ks) = (c = k \<and> starts_with s ks)"

fun str_includes :: "string \<Rightarrow> string \<Rightarrow> bool" where
  "str_includes [] k = starts_with [] k"
| "str_includes (c # s) k = (starts_with (c # s) k \<or> str_includes s k)"

definition lower_char :: "char \<Rightarrow> char" where
  "lower_char c =
     (case map_of (zip ''ABCDEFGHIJKLMNOPQRSTUVWXYZ'' ''abcdefghijklmnopqrstuvwxyz'') c of
        Some l \<Rightarrow> l | None \<Rightarrow> c)"

definition toLowerCase :: "string \<Rightarrow> string" where
  "toLowerCase s = map lower_char s"

text \<open>
  \<open>[...new Set(tags)]\<close>: the elements in order of first insertion.
\<close>

definition set_add :: "'a list \<Rightarrow> 'a \<Rightarrow> 'a list" where
  "set_add acc x = (if x \<in> set acc then acc else acc @ [x])"

definition js_dedup :: "'a list \<Rightarrow> 'a list" where
  "js_dedup tags = foldl set_add [] tags"

definition push_if :: "bool \<Rightarrow> 'a list \<Rightarrow> 'a list" where
  "push_if b xs = (if b then xs else [])"

definition instrument_bundle :: "string \<Rightarrow> string list" where
  "instrument_bundle instrumentType =
     (if instrumentType = ''kick'' then [''drum'', ''percussion'', ''rhythm'']
      else if instrumentType = ''snare'' then [''drum'', ''percussion'', ''rhythm'', ''crack'']
      else if instrumentType = ''hihat'' then [''drum'', ''percussion'', ''rhythm'', ''cymbal'']
      else if instrumentType = ''bass'' then [''low-end'', ''foundation'']
      else if instrumentType = ''lead'' then [''melody'', ''synthesizer'', ''synth'']
      else if instrumentType = ''pad'' then [''atmospheric'', ''ambient'', ''texture'']
      else if instrumentType = ''vocal'' then [''voice'', ''human'', ''melody'']
      else if instrumentType = ''piano'' then [''keys'', ''acoustic'', ''melody'']
      else if instrumentType = ''guitar'' then [''string'', ''acoustic'', ''melody'']
      else if instrumentType = ''string'' then [''orchestral'', ''melody'', ''acoustic'']
      else if instrumentType = ''brass'' then [''horn'', ''orchestral'', ''melody'']
      else [])"

text \<open>
  Each synthesizer pushes tags onto an array and returns the array passed through a
  set. The pushes are given first, as the array before the last line of the function.
\<close>

definition instrument_tags_pushed :: "string \<Rightarrow> AudioFeatures \<Rightarrow> string list" where
  "instrument_tags_pushed instrumentType f =
       ([instrumentType]
        @ (if js_lt (spectralCentroid f) 200 then [''low-frequency'', ''sub-bass'']
           else if js_lt (spectralCentroid f) 500 then [''bass-range'']
           else if js_lt (spectralCentroid f) 1000 then [''mid-range'']
           else if js_lt (spectralCentroid f) 3000 then [''high-mid'']
           else [''high-frequency'', ''bright''])
        @ (if js_gt (energy f) (7 / 10) then [''high-energy'', ''punchy'']
           else if js_lt (energy f) (3 / 10) then [''low-energy'', ''soft'']
           else [])
        @ push_if (js_lt (attack f) (1 / 100)) [''fast-attack'', ''punchy'']
        @ push_if (js_gt (sustain f) (6 / 10)) [''sustained'', ''long'']
        @ push_if (js_lt (decay f) (3 / 10)) [''short-decay'', ''tight'']
        @ instrument_bundle instrumentType)"

definition generateInstrumentTags :: "string \<Rightarrow> AudioFeatures \<Rightarrow> string list" where
  "generateInstrumentTags instrumentType f = js_dedup (instrument_tags_pushed instrumentType f)"

definition tempo_tags :: "jsnum \<Rightarrow> string list" where
  "tempo_tags bpm =
     push_if (js_lt bpm 80) [''slow'', ''downtempo'']
     @ push_if (js_ge bpm 80 \<and> js_lt bpm 120) [''mid-tempo'']
     @ push_if (js_ge bpm 120 \<and> js_lt bpm 140) [''up-tempo'']
     @ push_if (js_ge bpm 140) [''fast'', ''high-energy'']"

definition key_tags :: "string \<Rightarrow> string list" where
  "key_tags key = (if str_includes key ''m'' then [''minor''] else [''major''])"

definition AudioAnalyzer_tags_pushed :: "string \<Rightarrow> jsnum \<Rightarrow> string \<Rightarrow> string list" where
  "AudioAnalyzer_tags_pushed name bpm key =
       (push_if (str_includes name ''kick'') [''kick'', ''drum'']
        @ push_if (str_includes name ''snare'') [''snare'', ''drum'']
        @ push_if (str_includes name ''hihat'' \<or> str_includes name ''hi-hat'') [''hihat'', ''drum'']
        @ push_if (str_includes name ''crash'') [''crash'', ''cymbal'']
        @ push_if (str_includes name ''bass'') [''bass'']
        @ push_if (str_includes name ''808'') [''808'', ''sub-bass'']
        @ push_if (str_includes name ''guitar'') [''guitar'']
        @ push_if (str_includes name ''piano'' \<or> str_includes name ''keys'') [''piano'', ''keys'']
        @ push_if (str_includes name ''synth'') [''synthesizer'', ''synth'']
        @ push_if (str_includes name ''pad'') [''pad'', ''atmospheric'']
        @ push_if (str_includes name ''lead'') [''lead'', ''melody'']
        @ push_if (str_includes name ''vocal'' \<or> str_includes name ''voice'') [''vocal'', ''voice'']
        @ push_if (str_includes name ''choir'') [''choir'', ''vocal'']
        @ push_if (str_includes name ''string'') [''strings'', ''orchestral'']
        @ push_if (str_includes name ''brass'') [''brass'', ''horn'']
        @ push_if (str_includes name ''flute'') [''flute'', ''woodwind'']
        @ push_if (str_includes name ''sax'') [''saxophone'', ''brass'']
        @ push_if (str_includes name ''trap'') [''trap'']
        @ push_if (str_includes name ''house'') [''house'']
        @ push_if (str_includes name ''techno'') [''techno'']
        @ push_if (str_includes name ''dubstep'') [''dubstep'']
        @ push_if (str_includes name ''drum'' \<and> str_includes name ''bass'') [''drum and bass'', ''dnb'']
        @ push_if (str_includes name ''ambient'') [''ambient'']
        @ push_if (str_includes name ''lo-fi'' \<or> str_includes name ''lofi'') [''lo-fi'']
        @ push_if (str_includes name ''jazz'') [''jazz'']
        @ push_if (str_includes name ''funk'') [''funk'']
        @ push_if (str_includes name ''reggae'') [''reggae'']
        @ push_if (str_includes name ''rock'') [''rock'']
        @ push_if (str_includes name ''metal'') [''metal'']
        @ push_if (str_includes name ''country'') [''country'']
        @ push_if (str_includes name ''blues'') [''blues'']
        @ push_if (str_includes name ''distorted'' \<or> str_includes name ''dist'') [''distorted'']
        @ push_if (str_includes name ''reverb'') [''reverb'']
        @ push_if (str_includes name ''delay'') [''delay'']
        @ push_if (str_includes name ''chorus'') [''chorus'']
        @ push_if (str_includes name ''flanger'') [''flanger'']
        @ push_if (str_includes name ''phaser'') [''phaser'']
        @ push_if (str_includes name ''compressed'' \<or> str_includes name ''comp'') [''compressed'']
        @ push_if (str_includes name ''saturated'' \<or> str_includes name ''sat'') [''saturated'']
        @ push_if (str_includes name ''filtered'' \<or> str_includes name ''filter'') [''filtered'']
        @ push_if (str_includes name ''sidechain'') [''sidechain'']
        @ tempo_tags bpm
        @ key_tags key
        @ push_if (str_includes name ''clean'') [''clean'']
        @ push_if (str_includes name ''dirty'' \<or> str_includes name ''gritty'') [''dirty'', ''gritty'']
        @ push_if (str_includes name ''punchy'') [''punchy'']
        @ push_if (str_includes name ''soft'') [''soft'']
        @ push_if (str_includes name ''hard'') [''hard'']
        @ push_if (str_includes name ''warm'') [''warm'']
        @ push_if (str_includes name ''cold'') [''cold'']
        @ push_if (str_includes name ''bright'') [''bright'']
        @ push_if (str_includes name ''dark'') [''dark''])"

definition AudioAnalyzer_generateTagsFromFilename :: "string \<Rightarrow> jsnum \<Rightarrow> string \<Rightarrow> string list" where
  "AudioAnalyzer_generateTagsFromFilename filename bpm key =
     js_dedup (AudioAnalyzer_tags_pushed (toLowerCase filename) bpm key)"

text \<open>
  \<open>AlgorithmicTaggingService.generateTagsFromFilename\<close>, the fallback path; its callers
  pass the lower-cased file name, 120 and C.
\<close>

definition Service_tags_pushed :: "string \<Rightarrow> jsnum \<Rightarrow> string \<Rightarrow> string list" where
  "Service_tags_pushed name bpm key =
       (push_if (str_includes name ''kick'') [''kick'', ''drum'']
        @ push_if (str_includes name ''snare'') [''snare'', ''drum'']
        @ push_if (str_includes name ''hihat'' \<or> str_includes name ''hi-hat'') [''hihat'', ''drum'']
        @ push_if (str_includes name ''bass'') [''bass'']
        @ push_if (str_includes name ''808'') [''808'', ''sub-bass'']
        @ push_if (str_includes name ''guitar'') [''guitar'']
        @ push_if (str_includes name ''piano'' \<or> str_includes name ''keys'') [''piano'', ''keys'']
        @ push_if (str_includes name ''synth'') [''synthesizer'', ''synth'']
        @ push_if (str_includes name ''vocal'' \<or> str_includes name ''voice'') [''vocal'', ''voice'']
        @ push_if (str_includes name ''trap'') [''trap'']
        @ push_if (str_includes name ''house'') [''house'']
        @ push_if (str_includes name ''techno'') [''techno'']
        @ push_if (str_includes name ''ambient'') [''ambient'']
        @ push_if (str_includes name ''lo-fi'' \<or> str_includes name ''lofi'') [''lo-fi'']
        @ tempo_tags bpm
        @ key_tags key)"

definition Service_generateTagsFromFilename :: "string \<Rightarrow> jsnum \<Rightarrow> string \<Rightarrow> string list" where
  "Service_generateTagsFromFilename name bpm key = js_dedup (Service_tags_pushed name bpm key)"

definition fallbackSampleTagging :: "string \<Rightarrow> string list" where
  "fallbackSampleTagging filename =
     Service_generateTagsFromFilename (toLowerCase filename) (Fin 120) ''C''"

section \<open>Corpus aggregator\<close>

text \<open>
  The frequency tables of \<open>MIDIAnalysisService\<close> are objects with string keys,
  modelled as association lists in insertion order. \<open>table_set\<close> is the assignment
  \<open>t[key] = n\<close>, \<open>table_add\<close> the update \<open>t[key] = (t[key] || 0) + count\<close>.
\<close>

type_synonym table = "(string \<times> nat) list"

definition table_set :: "table \<Rightarrow> string \<Rightarrow> nat \<Rightarrow> table" where
  "table_set t key n =
     (if key \<in> fst ` set t then map (\<lambda>(k, v). if k = key then (k, n) else (k, v)) t
      else t @ [(key, n)])"

definition table_add :: "table \<Rightarrow> string \<Rightarrow> nat \<Rightarrow> table" where
  "table_add t key count =
     table_set t key ((case map_of t key of None \<Rightarrow> 0 | Some v \<Rightarrow> v) + count)"

definition genreKeywords :: "(string \<times> string list) list" where
  "genreKeywords =
     [(''Jazz'', [''jazz'', ''swing'', ''blues'', ''bebop'', ''fusion'', ''smooth'', ''lounge'']),
      (''Classical'', [''classical'', ''symphony'', ''orchestra'', ''chamber'', ''concerto'',
         ''sonata'', ''fugue'']),
      (''Rock'', [''rock'', ''metal'', ''punk'', ''grunge'', ''alternative'', ''indie'', ''garage'']),
      (''Electronic'', [''electronic'', ''techno'', ''house'', ''trance'', ''ambient'', ''synth'',
         ''dance'', ''edm'']),
      (''Pop'', [''pop'', ''mainstream'', ''radio'', ''hit'', ''chart'', ''commercial'']),
      (''Funk'', [''funk'', ''disco'', ''soul'', ''r&b'', ''motown'']),
      (''Latin'', [''latin'', ''salsa'', ''bossa'', ''samba'', ''tango'', ''flamenco'', ''samba'']),
      (''Country'', [''country'', ''folk'', ''bluegrass'', ''western'', ''americana'']),
      (''Hip-Hop'', [''hip'', ''hop'', ''rap'', ''urban'', ''trap'', ''drill'']),
      (''Reggae'', [''reggae'', ''ska'', ''dub'', ''dancehall'']),
      (''World'', [''world'', ''ethnic'', ''traditional'', ''cultural'', ''tribal''])]"

definition tempoCategories :: "(string \<times> nat \<times> nat) list" where
  "tempoCategories =
     [(''Very Slow'', 40, 60), (''Slow'', 60, 80), (''Moderate'', 80, 100),
      (''Medium'', 100, 120), (''Fast'', 120, 140), (''Very Fast'', 140, 200)]"

fun categorize_in :: "(string \<times> nat \<times> nat) list \<Rightarrow> nat \<Rightarrow> string" where
  "categorize_in [] t = ''Unknown''"
| "categorize_in ((category, lo, hi) # rest) t =
     (if t \<ge> lo \<and> t \<le> hi then category else categorize_in rest t)"

definition categorizeTempo :: "nat \<Rightarrow> string" where
  "categorizeTempo t = categorize_in tempoCategories t"

definition instrumentKeywords :: "string list" where
  "instrumentKeywords =
     [''piano'', ''guitar'', ''bass'', ''drums'', ''sax'', ''trumpet'', ''violin'', ''flute'',
      ''organ'', ''synth'']"

definition mapKeywordToInstrument :: "string \<Rightarrow> string" where
  "mapKeywordToInstrument keyword =
     (case map_of
        [(''piano'', ''Piano''), (''guitar'', ''Guitar''), (''bass'', ''Bass''),
         (''drums'', ''Drums''), (''sax'', ''Saxophone''), (''trumpet'', ''Trumpet''),
         (''violin'', ''Violin''), (''flute'', ''Flute''), (''organ'', ''Organ''),
         (''synth'', ''Synthesizer'')] keyword of
        Some name \<Rightarrow> name | None \<Rightarrow> ''Unknown'')"

text \<open>
  The tempo pattern \<open>/(\d{2,3})bpm|(\d{2,3})\s*bpm|bpm\s*(\d{2,3})/i\<close>: the match
  at the leftmost position where one of the three alternatives matches, the
  alternatives tried in order and three digits before two. The result is the text of
  the group that took part, which \<open>parseInt\<close> reads.
\<close>

definition is_digit :: "char \<Rightarrow> bool" where
  "is_digit c \<longleftrightarrow> c \<in> set ''0123456789''"

definition is_space :: "char \<Rightarrow> bool" where
  "is_space c \<longleftrightarrow> c \<in> set [CHR '' '', CHR 0x09, CHR 0x0A, CHR 0x0B, CHR 0x0C, CHR 0x0D]"

definition digits_then :: "string \<Rightarrow> (string \<Rightarrow> bool) \<Rightarrow> string option" where
  "digits_then s rest_ok =
     (if 3 \<le> length s \<and> list_all is_digit (take 3 s) \<and> rest_ok (drop 3 s) then Some (take 3 s)
      else if 2 \<le> length s \<and> list_all is_digit (take 2 s) \<and> rest_ok (drop 2 s) then Some (take 2 s)
      else None)"

definition tempo_match_at :: "string \<Rightarrow> string option" where
  "tempo_match_at s =
     (case digits_then s (\<lambda>r. starts_with r ''bpm'') of
        Some d \<Rightarrow> Some d
      | None \<Rightarrow>
         (case digits_then s (\<lambda>r. starts_with (dropWhile is_space r) ''bpm'') of
            Some d \<Rightarrow> Some d
          | None \<Rightarrow>
             (if starts_with s ''bpm''
              then digits_then (dropWhile is_space (drop 3 s)) (\<lambda>r. True)
              else None)))"

fun tempo_match :: "string \<Rightarrow> string option" where
  "tempo_match [] = None"
| "tempo_match (c # s) =
     (case tempo_match_at (c # s) of Some d \<Rightarrow> Some d | None \<Rightarrow> tempo_match s)"

definition digit_value :: "char \<Rightarrow> nat" where
  "digit_value c = length (takeWhile (\<lambda>d. d \<noteq> c) ''0123456789'')"

definition parseInt :: "string \<Rightarrow> nat" where
  "parseInt ds = foldl (\<lambda>n c. 10 * n + digit_value c) 0 ds"

text \<open>
  The key pattern \<open>/([A-G][#b]?[m]?)\s*(major|minor)?/i\<close>: the first letter from a
  to g of either case, with an optional sharp or flat sign and an optional m after it.
\<close>

definition optional_char :: "string \<Rightarrow> string \<Rightarrow> string \<times> string" where
  "optional_char allowed s =
     (case s of c # rest \<Rightarrow> if c \<in> set allowed then ([c], rest) else ([], s) | [] \<Rightarrow> ([], s))"

fun key_match :: "string \<Rightarrow> string option" where
  "key_match [] = None"
| "key_match (c # s) =
     (if c \<in> set ''ABCDEFGabcdefg''
      then (let (accidental, s1) = optional_char ''#bB'' s;
                (minor, s2) = optional_char ''mM'' s1
            in Some (c # accidental @ minor))
      else key_match s)"

text \<open>
  \<open>analyzeSingleMIDI\<close> reads the file name only. Of its result the tables that the
  learning gaps depend on are kept, and the tempo.
\<close>

record FileAnalysis =
  file_instruments :: table
  file_genres :: table
  file_tempos :: table
  file_keys :: table
  file_averageTempo :: nat

definition analyzeSingleMIDI :: "string \<Rightarrow> FileAnalysis" where
  "analyzeSingleMIDI name =
     (let fileName = toLowerCase name;
          genres0 = foldl (\<lambda>t (genre, keywords).
                       if list_ex (\<lambda>keyword. str_includes fileName keyword) keywords
                       then table_set t genre 1 else t) [] genreKeywords;
          genres1 = (if length genres0 = 0 then table_set genres0 ''Unknown'' 1 else genres0);
          instruments0 = foldl (\<lambda>t keyword.
                       if str_includes fileName keyword
                       then table_set t (mapKeywordToInstrument keyword) 1 else t) [] instrumentKeywords;
          instruments1 = (if length instruments0 = 0 then table_set instruments0 ''Piano'' 1
                          else instruments0);
          tempoMatch = tempo_match fileName;
          tempoOk = (case tempoMatch of Some d \<Rightarrow> parseInt d \<ge> 40 \<and> parseInt d \<le> 200 | None \<Rightarrow> False);
          averageTempo = (case tempoMatch of Some d \<Rightarrow> if tempoOk then parseInt d else 120 | None \<Rightarrow> 120);
          tempos1 = (case tempoMatch of
                       Some d \<Rightarrow> if tempoOk then table_set [] (categorizeTempo (parseInt d)) 1 else []
                     | None \<Rightarrow> table_set [] ''Medium'' 1);
          keys1 = (case key_match fileName of
                     Some k \<Rightarrow> table_set [] k 1
                   | None \<Rightarrow> table_set [] ''C'' 1)
      in \<lparr>file_instruments = instruments1, file_genres = genres1, file_tempos = tempos1,
          file_keys = keys1, file_averageTempo = averageTempo\<rparr>)"

record MIDIAnalysis =
  instruments :: table
  genres :: table
  tempos :: table
  keys :: table
  totalFiles :: nat
  learningGaps :: "string list"

definition commonInstruments :: "string list" where
  "commonInstruments = [''Piano'', ''Guitar'', ''Bass'', ''Drums'', ''Saxophone'', ''Trumpet'']"

text \<open>\<open>!analysis.instruments[instrument]\<close>: the entry is absent or its count is 0.\<close>

definition falsy_entry :: "table \<Rightarrow> string \<Rightarrow> bool" where
  "falsy_entry t key = (case map_of t key of None \<Rightarrow> True | Some n \<Rightarrow> n = 0)"

definition identifyLearningGaps :: "table \<Rightarrow> table \<Rightarrow> table \<Rightarrow> table \<Rightarrow> string list" where
  "identifyLearningGaps instrs tmps gnrs ks =
     map (\<lambda>instrument. ''Missing '' @ instrument @ '' training data'')
       (filter (\<lambda>instrument. falsy_entry instrs instrument) commonInstruments)
     @ push_if (length tmps < 3) [''Limited tempo diversity - add more varied BPM ranges'']
     @ push_if (length gnrs < 3) [''Limited genre diversity - add more musical styles'']
     @ push_if (length ks < 5) [''Limited key diversity - add more key signatures'']"

definition merge_table :: "table \<Rightarrow> table \<Rightarrow> table" where
  "merge_table t entries = foldl (\<lambda>t (key, count). table_add t key count) t entries"

definition aggregate :: "MIDIAnalysis \<Rightarrow> string \<Rightarrow> MIDIAnalysis" where
  "aggregate analysis name =
     (let fileAnalysis = analyzeSingleMIDI name in
      analysis\<lparr>instruments := merge_table (instruments analysis) (file_instruments fileAnalysis),
               genres := merge_table (genres analysis) (file_genres fileAnalysis),
               tempos := merge_table (tempos analysis) (file_tempos fileAnalysis),
               keys := merge_table (keys analysis) (file_keys fileAnalysis)\<rparr>)"

definition analyzeMIDIFiles :: "string list \<Rightarrow> MIDIAnalysis" where
  "analyzeMIDIFiles files =
     (let analysis0 = \<lparr>instruments = [], genres = [], tempos = [], keys = [],
                        totalFiles = length files, learningGaps = []\<rparr>;
          analysis = foldl aggregate analysis0 files
      in analysis\<lparr>learningGaps :=
           identifyLearningGaps (instruments analysis) (tempos analysis) (genres analysis)
             (keys analysis)\<rparr>)"

section \<open>Windowing\<close>

text \<open>
  The window loops have the form
  \<open>for (let i = 0; i < channelData.length - w; i += h)\<close> with constants \<open>w\<close> and
  \<open>h\<close> (1024 and 512, or 2048 and 2048). \<open>frame_starts\<close> lists the values of
  \<open>i\<close> for which the body runs; the window is \<open>channelData.slice(i, i + w)\<close>.
\<close>

function frame_starts :: "nat \<Rightarrow> nat \<Rightarrow> nat \<Rightarrow> nat \<Rightarrow> nat list" where
  "frame_starts len w h i =
     (if 0 < h \<and> int i < int len - int w then i # frame_starts len w h (i + h) else [])"
  by pat_completeness auto
termination
  by (relation "measure (\<lambda>(len, w, h, i). len - i)") auto

declare frame_starts.simps [simp del]

definition slice :: "'a list \<Rightarrow> nat \<Rightarrow> nat \<Rightarrow> 'a list" where
  "slice xs i j = take (j - i) (drop i xs)"

definition windowSize :: nat where "windowSize = 1024"
definition hopSize :: nat where "hopSize = 512"

text \<open>The sum of squares \<open>window.reduce((sum, val) => sum + val * val, 0)\<close>.\<close>

definition sum_squares :: "real list \<Rightarrow> real" where
  "sum_squares window = sum_list (map (\<lambda>val. val * val) window)"

section \<open>Spectral transformer\<close>

text \<open>\<open>simpleFFT\<close>: the magnitudes of the discrete Fourier transform by direct summation.\<close>

definition dft_real :: "real list \<Rightarrow> nat \<Rightarrow> real" where
  "dft_real samples k =
     (\<Sum>n\<leftarrow>[0..<length samples].
        samples ! n * cos (- 2 * pi * real k * real n / real (length samples)))"

definition dft_imag :: "real list \<Rightarrow> nat \<Rightarrow> real" where
  "dft_imag samples k =
     (\<Sum>n\<leftarrow>[0..<length samples].
        samples ! n * sin (- 2 * pi * real k * real n / real (length samples)))"

definition simpleFFT :: "real list \<Rightarrow> real list" where
  "simpleFFT samples =
     map (\<lambda>k. sqrt (dft_real samples k * dft_real samples k
                    + dft_imag samples k * dft_imag samples k))
       [0..<length samples]"

text \<open>
  The bins visited by \<open>for (let i = 0; i < fft.length / 2; i++)\<close>: the division is
  not an integer division, so for an odd length the middle bin is included.
\<close>

definition half_bins :: "real list \<Rightarrow> nat list" where
  "half_bins fft = filter (\<lambda>i. real i < real (length fft) / 2) [0..<length fft]"

section \<open>Feature extractors of InstrumentDetector\<close>

definition calculateSpectralCentroid :: "real list \<Rightarrow> real \<Rightarrow> nat \<Rightarrow> real" where
  "calculateSpectralCentroid channelData sampleRate fftSize =
     (let fft = simpleFFT (slice channelData 0 fftSize);
          weightedSum = (\<Sum>i\<leftarrow>half_bins fft. (real i * sampleRate) / real fftSize * fft ! i);
          magnitudeSum = (\<Sum>i\<leftarrow>half_bins fft. fft ! i)
      in if magnitudeSum > 0 then weightedSum / magnitudeSum else 0)"

text \<open>
  The rolloff loop returns from inside the loop; \<open>rolloff_loop\<close> is the loop from
  index \<open>i\<close> on with the energy accumulated so far.
\<close>

function rolloff_loop :: "real list \<Rightarrow> real \<Rightarrow> real \<Rightarrow> nat \<Rightarrow> nat \<Rightarrow> real \<Rightarrow> real" where
  "rolloff_loop fft threshold sampleRate fftSize i cumulativeEnergy =
     (if real i < real (length fft) / 2 then
        (let cumulativeEnergy' = cumulativeEnergy + fft ! i in
         if cumulativeEnergy' \<ge> threshold then (real i * sampleRate) / real fftSize
         else rolloff_loop fft threshold sampleRate fftSize (i + 1) cumulativeEnergy')
      else sampleRate / 2)"
  by pat_completeness auto
termination
  by (relation "measure (\<lambda>(fft, t, sr, n, i, c). length fft - i)") auto

declare rolloff_loop.simps [simp del]

definition calculateSpectralRolloff :: "real list \<Rightarrow> real \<Rightarrow> nat \<Rightarrow> real" where
  "calculateSpectralRolloff channelData sampleRate fftSize =
     (let fft = simpleFFT (slice channelData 0 fftSize);
          totalEnergy = sum_list fft;
          threshold = (85 / 100) * totalEnergy
      in rolloff_loop fft threshold sampleRate fftSize 0 0)"

text \<open>
  \<open>calculateMFCC\<close>: thirteen bands; a band whose bin indices reach beyond the
  spectrum adds \<open>undefined\<close> and becomes NaN.
\<close>

definition numFilters :: nat where "numFilters = 13"

definition mfcc_band :: "real list \<Rightarrow> real \<Rightarrow> nat \<Rightarrow> nat \<Rightarrow> jsnum" where
  "mfcc_band fft sampleRate fftSize i =
     (let startFreq = (real i * sampleRate) / real (2 * numFilters);
          endFreq = (real (i + 1) * sampleRate) / real (2 * numFilters);
          js = [\<lfloor>startFreq * real fftSize / sampleRate\<rfloor> .. \<lfloor>endFreq * real fftSize / sampleRate\<rfloor> - 1]
      in if \<forall>j \<in> set js. 0 \<le> j \<and> j < int (length fft)
         then Fin (ln ((\<Sum>j\<leftarrow>js. fft ! nat j) + 1 / 10 ^ 10))
         else NaN)"

definition calculateMFCC :: "real list \<Rightarrow> real \<Rightarrow> nat \<Rightarrow> jsnum list" where
  "calculateMFCC channelData sampleRate fftSize =
     (let fft = simpleFFT (slice channelData 0 fftSize)
      in map (mfcc_band fft sampleRate fftSize) [0..<numFilters])"

text \<open>
  The chroma bin of a frequency, and one step of the accumulation
  \<open>chroma[chromaIndex] += magnitude\<close> with its two guards.
\<close>

definition chromaIndex :: "real \<Rightarrow> int" where
  "chromaIndex frequency = js_rem (js_round (12 * log 2 (frequency / 440))) 12"

definition chroma_step :: "real list \<Rightarrow> real \<Rightarrow> real \<Rightarrow> real list" where
  "chroma_step acc frequency magnitude =
     (if frequency > 80 \<and> frequency < 5000 then
        (if chromaIndex frequency \<ge> 0 \<and> chromaIndex frequency < 12
         then acc[nat (chromaIndex frequency) := acc ! nat (chromaIndex frequency) + magnitude]
         else acc)
      else acc)"

definition calculateChromaFeatures :: "real list \<Rightarrow> real \<Rightarrow> nat \<Rightarrow> real list" where
  "calculateChromaFeatures channelData sampleRate fftSize =
     (let fft = simpleFFT (slice channelData 0 fftSize)
      in foldl (\<lambda>acc i. chroma_step acc ((real i * sampleRate) / real fftSize) (fft ! i))
           (replicate 12 0) (half_bins fft))"

text \<open>\<open>InstrumentDetector.detectTempo\<close>: onsets, their intervals, and the rounded rate.\<close>

fun intervals :: "real list \<Rightarrow> real list" where
  "intervals (a # b # onsets) = (b - a) # intervals (b # onsets)"
| "intervals onsets = []"

definition tempo_of_onsets :: "real list \<Rightarrow> jsnum" where
  "tempo_of_onsets onsets =
     (case js_div (sum_list (intervals onsets)) (real (length (intervals onsets))) of
        Fin avgInterval \<Rightarrow> js_round_num (js_div 60 avgInterval)
      | PosInf \<Rightarrow> Fin 0
      | NegInf \<Rightarrow> Fin 0
      | NaN \<Rightarrow> NaN)"

definition detectTempo :: "real list \<Rightarrow> real \<Rightarrow> jsnum" where
  "detectTempo channelData sampleRate =
     (let onsets = map (\<lambda>i. real i / sampleRate)
                     (filter (\<lambda>i. sum_squares (slice channelData i (i + windowSize)) > 1 / 10)
                        (frame_starts (length channelData) windowSize hopSize 0))
      in if length onsets < 2 then Fin 120 else tempo_of_onsets onsets)"

definition calculateEnergy :: "real list \<Rightarrow> jsnum" where
  "calculateEnergy channelData =
     js_sqrt (js_div (sum_squares channelData) (real (length channelData)))"

text \<open>\<open>calculateEnvelope\<close>: one root-mean-square value for every window of the loop.\<close>

definition calculateEnvelope :: "real list \<Rightarrow> real list" where
  "calculateEnvelope channelData =
     map (\<lambda>i. sqrt (sum_squares (slice channelData i (i + windowSize)) / real windowSize))
       (frame_starts (length channelData) windowSize hopSize 0)"

text \<open>
  The two search loops of \<open>calculateADSR\<close> stop at the first index that satisfies
  the condition and leave the time at 0 when there is none.
\<close>

fun first_index :: "('a \<Rightarrow> bool) \<Rightarrow> 'a list \<Rightarrow> nat option" where
  "first_index P [] = None"
| "first_index P (x # xs) = (if P x then Some 0 else map_option Suc (first_index P xs))"

record ADSR =
  adsr_attack :: real
  adsr_sustain :: jsnum
  adsr_decay :: real

definition calculateADSR :: "real list \<Rightarrow> real \<Rightarrow> ADSR" where
  "calculateADSR channelData sampleRate =
     (let envelope = calculateEnvelope channelData;
          peak = js_max envelope;
          attackThreshold = js_scale (9 / 10) peak;
          attackTime = (case first_index (\<lambda>e. ge_js e attackThreshold) envelope of
                          Some i \<Rightarrow> real i / sampleRate | None \<Rightarrow> 0);
          sustainStart = \<lfloor>attackTime * sampleRate\<rfloor>;
          sustainEnd = \<lfloor>real (length envelope) * (8 / 10)\<rfloor>;
          sustainSum = (\<Sum>i\<leftarrow>[sustainStart .. sustainEnd - 1]. envelope ! nat i);
          sustainCount = length [sustainStart .. sustainEnd - 1];
          sustainLevel = (if sustainCount > 0 then sustainSum / real sustainCount else 0);
          decayThreshold = js_scale (5 / 10) peak;
          decayTime = (case first_index (\<lambda>e. le_js e decayThreshold) envelope of
                         Some i \<Rightarrow> real i / sampleRate | None \<Rightarrow> 0)
      in \<lparr>adsr_attack = attackTime, adsr_sustain = js_div_by sustainLevel peak,
          adsr_decay = decayTime\<rparr>)"

text \<open>\<open>extractAudioFeatures\<close> with the fixed transform size 2048.\<close>

definition extractAudioFeatures :: "real list \<Rightarrow> real \<Rightarrow> AudioFeatures" where
  "extractAudioFeatures channelData sampleRate =
     (let fftSize = 2048; adsr = calculateADSR channelData sampleRate in
      \<lparr>spectralCentroid = Fin (calculateSpectralCentroid channelData sampleRate fftSize),
       spectralRolloff = Fin (calculateSpectralRolloff channelData sampleRate fftSize),
       zeroCrossingRate = calculateZeroCrossingRate channelData,
       mfcc = calculateMFCC channelData sampleRate fftSize,
       chroma = calculateChromaFeatures channelData sampleRate fftSize,
       tempo = detectTempo channelData sampleRate,
       energy = calculateEnergy channelData,
       attack = Fin (adsr_attack adsr),
       sustain = adsr_sustain adsr,
       decay = Fin (adsr_decay adsr)\<rparr>)"

section \<open>Tempo and chroma of AudioAnalyzer\<close>

definition calculateMagnitude :: "real list \<Rightarrow> jsnum" where
  "calculateMagnitude samples = js_sqrt (js_div (sum_squares samples) (real (length samples)))"

definition detectBPM :: "real list \<Rightarrow> real \<Rightarrow> jsnum" where
  "detectBPM channelData sampleRate =
     (let onsets = map (\<lambda>i. real i / sampleRate)
                     (filter (\<lambda>i. js_gt (calculateMagnitude (slice channelData i (i + windowSize))) (1 / 10))
                        (frame_starts (length channelData) windowSize hopSize 0))
      in if length onsets < 2 then Fin 120
         else js_clamp 60 200 (tempo_of_onsets onsets))"

definition AudioAnalyzer_calculateChromaFeatures :: "real list \<Rightarrow> real \<Rightarrow> real list" where
  "AudioAnalyzer_calculateChromaFeatures samples sampleRate =
     (let fftSize = 2048 in
      foldl (\<lambda>acc i.
               (let fft = simpleFFT (slice samples i (i + fftSize)) in
                foldl (\<lambda>acc j. chroma_step acc ((real j * sampleRate) / real fftSize) \<bar>fft ! j\<bar>)
                  acc [0..<length fft]))
        (replicate 12 0) (frame_starts (length samples) fftSize fftSize 0))"

section \<open>Notions used to state the properties\<close>



text \<open>
  A bin of frequency \<open>f\<close> adds to chroma index \<open>c\<close> when \<open>f\<close> lies strictly
  between 80 and 5000 and the rounded pitch number \<open>r\<close> is either not negative or a
  multiple of 12, with \<open>c\<close> its residue modulo 12.
\<close>

definition contributes_to :: "real \<Rightarrow> nat \<Rightarrow> bool" where
  "contributes_to frequency c \<longleftrightarrow>
     80 < frequency \<and> frequency < 5000 \<and>
     (let r = js_round (12 * log 2 (frequency / 440)) in (0 \<le> r \<or> 12 dvd r) \<and> r mod 12 = int c)"

text \<open>The counts of a table are all positive.\<close>

definition positive_counts :: "table \<Rightarrow> bool" where
  "positive_counts t \<longleftrightarrow> (\<forall>(k, v) \<in> set t. 0 < v)"

section \<open>Example inputs\<close>

text \<open>A feature tuple matching both the kick rule and the percussion fallback.\<close>

definition kick_example :: AudioFeatures where
  "kick_example = \<lparr>spectralCentroid = Fin 100, spectralRolloff = Fin 0,
     zeroCrossingRate = Fin 0, mfcc = [], chroma = [], tempo = Fin 120, energy = Fin (9 / 10),
     attack = Fin 0, sustain = NaN, decay = Fin 0\<rparr>"

text \<open>A feature tuple matching the lead rule and none before it.\<close>

definition lead_example :: AudioFeatures where
  "lead_example = \<lparr>spectralCentroid = Fin 1500, spectralRolloff = Fin 3000,
     zeroCrossingRate = Fin (2 / 100), mfcc = [], chroma = [], tempo = Fin 120,
     energy = Fin (3 / 10), attack = Fin (2 / 100), sustain = Fin (6 / 10),
     decay = Fin (4 / 10)\<rparr>"

text \<open>Five file names without any instrument keyword.\<close>

definition files5 :: "string list" where
  "files5 = [''song1.mid'', ''song2.mid'', ''song3.mid'', ''song4.mid'', ''song5.mid'']"

section \<open>Properties\<close>

subsection \<open>Windows and constant buffers\<close>

lemma frame_starts_short: "len \<le> w \<Longrightarrow> frame_starts len w h 0 = []"
  by (simp add: frame_starts.simps [of len w h 0])

lemma frame_starts_1537: "frame_starts 1537 1024 512 0 = [0, 512]"
  by (simp add: frame_starts.simps [of 1537 1024 512 0] frame_starts.simps [of 1537 1024 512 512]
      frame_starts.simps [of 1537 1024 512 1024])

lemma sum_squares_replicate: "sum_squares (replicate n c) = real n * (c * c)"
  by (simp add: sum_squares_def sum_list_replicate)

lemma slice_replicate: "slice (replicate n c) i j = replicate (min (j - i) (n - i)) c"
  by (simp add: slice_def)

subsection \<open>Zero-crossing rate\<close>

lemma crossings_less: "xs \<noteq> [] \<Longrightarrow> crossings xs < length xs"
  by (induction xs rule: crossings.induct) auto

text \<open>
  C10. For every non-empty sample buffer the zero-crossing rate is a finite number in
  the half-open interval from 0 (included) to 1 (excluded): the number of sign changes
  between adjacent samples is at most the length minus one, and it is divided by the
  length.
\<close>

theorem zero_crossing_rate_range:
  assumes "channelData \<noteq> []"
  shows "\<exists>r. calculateZeroCrossingRate channelData = Fin r \<and> 0 \<le> r \<and> r < 1
           \<and> r = real (crossings channelData) / real (length channelData)
           \<and> crossings channelData \<le> length channelData - 1"
proof -
  have lt: "crossings channelData < length channelData"
    using assms by (rule crossings_less)
  have pos: "0 < real (length channelData)"
    using assms by simp
  have "real (crossings channelData) / real (length channelData) < 1"
    using lt pos by simp
  moreover have "0 \<le> real (crossings channelData) / real (length channelData)"
    by simp
  moreover have "calculateZeroCrossingRate channelData
      = Fin (real (crossings channelData) / real (length channelData))"
    using assms by (simp add: calculateZeroCrossingRate_def js_div_def)
  moreover have "crossings channelData \<le> length channelData - 1"
    using lt by simp
  ultimately show ?thesis by blast
qed

theorem zero_crossing_rate_range_witness:
  "[1, -1, 1 :: real] \<noteq> [] \<and> calculateZeroCrossingRate [1, -1, 1] = Fin (2 / 3)"
proof -
  have ne: "[1, -1, 1 :: real] \<noteq> []" by simp
  from zero_crossing_rate_range [OF ne]
  obtain r where "calculateZeroCrossingRate [1, -1, 1] = Fin r"
    and "r = real (crossings [1, -1, 1]) / real (length [1, -1, 1 :: real])"
    by blast
  then show ?thesis by simp
qed

subsection \<open>Tag lists\<close>

lemma distinct_foldl_set_add: "distinct acc \<Longrightarrow> distinct (foldl set_add acc xs)"
  by (induction xs arbitrary: acc) (auto simp: set_add_def)

lemma set_foldl_set_add: "set (foldl set_add acc xs) = set acc \<union> set xs"
  by (induction xs arbitrary: acc) (auto simp: set_add_def)

lemma distinct_js_dedup: "distinct (js_dedup xs)"
  by (simp add: js_dedup_def distinct_foldl_set_add)

text \<open>
  C9. Whatever the instrument label, the feature values, the file name, the tempo and
  the key string are, the tag lists returned by \<open>generateInstrumentTags\<close> and by both
  \<open>generateTagsFromFilename\<close> functions contain no string twice: each of them passes
  the collected tags through a set before returning them.
\<close>

theorem tag_lists_distinct:
  "distinct (generateInstrumentTags instrumentType f)
   \<and> distinct (AudioAnalyzer_generateTagsFromFilename filename bpm key)
   \<and> distinct (Service_generateTagsFromFilename name bpm key)"
  by (simp add: generateInstrumentTags_def AudioAnalyzer_generateTagsFromFilename_def
      Service_generateTagsFromFilename_def distinct_js_dedup)

subsection \<open>Rule order\<close>

lemma first_match_rule_table:
  "first_match rule_table f = classifyInstrument f"
  by (simp only: rule_table_def classifyInstrument_def first_match.simps)

lemma kick_rule_first: "kick_rule f \<Longrightarrow> classifyInstrument f = ''kick''"
  by (simp only: classifyInstrument_def if_True)

text \<open>
  C4. The classifier agrees with the ordered rule table kick, snare, hihat, bass, lead,
  pad, vocal, piano, guitar, string, brass, percussion, of which the first rule that
  matches gives the label and which yields unknown when none matches. In particular
  every feature tuple with centroid below 200, energy above 0.7 and attack below 0.01
  is classified as kick, whatever later rules it also satisfies.
\<close>

theorem classify_first_match_wins:
  "classifyInstrument f = first_match rule_table f
   \<and> map snd rule_table = [''kick'', ''snare'', ''hihat'', ''bass'', ''lead'', ''pad'', ''vocal'',
        ''piano'', ''guitar'', ''string'', ''brass'', ''percussion'']
   \<and> (js_lt (spectralCentroid f) 200 \<and> js_gt (energy f) (7 / 10) \<and> js_lt (attack f) (1 / 100)
        \<longrightarrow> classifyInstrument f = ''kick'')"
proof (intro conjI impI)
  show "classifyInstrument f = first_match rule_table f"
    by (simp only: first_match_rule_table)
  show "map snd rule_table = [''kick'', ''snare'', ''hihat'', ''bass'', ''lead'', ''pad'', ''vocal'',
        ''piano'', ''guitar'', ''string'', ''brass'', ''percussion'']"
    by (simp add: rule_table_def)
  assume "js_lt (spectralCentroid f) 200 \<and> js_gt (energy f) (7 / 10) \<and> js_lt (attack f) (1 / 100)"
  then have "kick_rule f" by (simp add: kick_rule_def)
  then show "classifyInstrument f = ''kick''" by (rule kick_rule_first)
qed

theorem classify_first_match_wins_witness:
  "kick_rule kick_example \<and> percussion_rule kick_example
   \<and> classifyInstrument kick_example = ''kick''"
proof -
  have pre: "js_lt (spectralCentroid kick_example) 200 \<and> js_gt (energy kick_example) (7 / 10)
      \<and> js_lt (attack kick_example) (1 / 100)"
    by (simp add: kick_example_def)
  have "classifyInstrument kick_example = ''kick''"
    using classify_first_match_wins [of kick_example] pre by blast
  moreover have "kick_rule kick_example" and "percussion_rule kick_example"
    by (simp_all add: kick_example_def kick_rule_def percussion_rule_def)
  ultimately show ?thesis by simp
qed

subsection \<open>Confidence\<close>

lemma confidence_range: "0 \<le> calculateConfidence f t \<and> calculateConfidence f t \<le> 1"
  by (simp add: calculateConfidence_def Let_def)

text \<open>
  C3. The confidence is always between 0 and 1, but only kick, snare, hihat and bass
  have a case of their own with the base and the bonuses. A feature tuple that matches
  the lead rule takes the default branch of the switch and receives the flat 0.3 that
  the source comments as meant for unknown input: at centroid 1500 and sustain 0.6 the
  label is lead and the confidence is 0.3.
\<close>

theorem confidence_lead_is_flat:
  "classifyInstrument lead_example = ''lead''
   \<and> calculateConfidence lead_example (classifyInstrument lead_example) = 3 / 10"
  by (simp add: classifyInstrument_def lead_example_def kick_rule_def snare_rule_def
      hihat_rule_def bass_rule_def lead_rule_def calculateConfidence_def)

subsection \<open>Tempo\<close>

text \<open>The clamped path: \<open>detectBPM\<close> always returns a number between 60 and 200.\<close>

lemma length_intervals: "length (intervals xs) = length xs - 1"
  by (induction xs rule: intervals.induct) auto

lemma detectBPM_range: "\<exists>b. detectBPM xs sr = Fin b \<and> 60 \<le> b \<and> b \<le> 200"
proof -
  define onsets where "onsets = map (\<lambda>i. real i / sr)
      (filter (\<lambda>i. js_gt (calculateMagnitude (slice xs i (i + windowSize))) (1 / 10))
         (frame_starts (length xs) windowSize hopSize 0))"
  show ?thesis
  proof (cases "length onsets < 2")
    case True
    then show ?thesis by (simp add: detectBPM_def onsets_def [symmetric])
  next
    case False
    then have n: "real (length (intervals onsets)) \<noteq> 0"
      by (simp add: length_intervals)
    obtain avg where avg: "js_div (sum_list (intervals onsets)) (real (length (intervals onsets))) = Fin avg"
      using n by (simp add: js_div_def)
    have "\<exists>b. js_clamp 60 200 (js_round_num (js_div 60 avg)) = Fin b \<and> 60 \<le> b \<and> b \<le> 200"
      by (simp add: js_div_def)
    then show ?thesis
      using False avg by (simp add: detectBPM_def onsets_def [symmetric] tempo_of_onsets_def)
  qed
qed

text \<open>
  C1. The tempo of \<open>AudioAnalyzer.detectBPM\<close> is clamped to the interval from 60 to
  200, that of \<open>InstrumentDetector.detectTempo\<close> is not: on 1537 samples of value
  0.5 at 44100 Hz both windows are onsets 512 samples apart, and \<open>detectTempo\<close>
  returns 5168 where \<open>detectBPM\<close> returns 200.
\<close>

theorem detectTempo_not_clamped:
  "detectTempo (replicate 1537 (1 / 2)) 44100 = Fin 5168
   \<and> detectBPM (replicate 1537 (1 / 2)) 44100 = Fin 200"
proof
  show "detectTempo (replicate 1537 (1 / 2)) 44100 = Fin 5168"
    by (simp add: detectTempo_def windowSize_def hopSize_def frame_starts_1537
        slice_replicate sum_squares_replicate tempo_of_onsets_def js_div_def js_round_def)
  have m: "(1::real) / 10 < sqrt (1 / 4)"
    by (rule real_less_rsqrt) (simp add: power2_eq_square)
  show "detectBPM (replicate 1537 (1 / 2)) 44100 = Fin 200"
    using m
    by (simp add: detectBPM_def windowSize_def hopSize_def frame_starts_1537
        slice_replicate sum_squares_replicate calculateMagnitude_def
        tempo_of_onsets_def js_div_def js_round_def)
qed

subsection \<open>Short buffers\<close>

lemma envelope_short: "length xs \<le> windowSize \<Longrightarrow> calculateEnvelope xs = []"
  by (simp add: calculateEnvelope_def frame_starts_short)

lemma adsr_of_empty_envelope:
  "calculateEnvelope xs = [] \<Longrightarrow>
   calculateADSR xs sr = \<lparr>adsr_attack = 0, adsr_sustain = Fin 0, adsr_decay = 0\<rparr>"
  by (simp add: calculateADSR_def Let_def)

text \<open>
  C8. For every buffer of at most 1024 samples the window loop does not run: the
  envelope sequence is empty, nothing is padded. \<open>calculateADSR\<close> on the empty
  sequence still returns a value, with attack 0, decay 0 and sustain 0 (the quotient of
  0 by the maximum of the empty sequence, minus infinity), and \<open>detectTempo\<close>
  returns its default 120.
\<close>

theorem short_buffer_has_no_window:
  assumes "length channelData \<le> windowSize"
  shows "calculateEnvelope channelData = []
    \<and> calculateADSR channelData sampleRate
        = \<lparr>adsr_attack = 0, adsr_sustain = Fin 0, adsr_decay = 0\<rparr>
    \<and> detectTempo channelData sampleRate = Fin 120"
proof (intro conjI)
  show e: "calculateEnvelope channelData = []"
    using assms by (rule envelope_short)
  show "calculateADSR channelData sampleRate
        = \<lparr>adsr_attack = 0, adsr_sustain = Fin 0, adsr_decay = 0\<rparr>"
    using e by (rule adsr_of_empty_envelope)
  show "detectTempo channelData sampleRate = Fin 120"
    using assms by (simp add: detectTempo_def frame_starts_short)
qed

theorem short_buffer_has_no_window_witness:
  "length [1 / 2, 1 / 4 :: real] \<le> windowSize
   \<and> calculateEnvelope [1 / 2, 1 / 4] = []
   \<and> adsr_sustain (calculateADSR [1 / 2, 1 / 4] 44100) = Fin 0"
proof -
  have h: "length [1 / 2, 1 / 4 :: real] \<le> windowSize" by (simp add: windowSize_def)
  show ?thesis using h short_buffer_has_no_window [OF h, of 44100] by simp
qed

text \<open>A one-sample buffer is shorter than the window and yields no window, not one.\<close>

theorem short_buffer_window_counterexample:
  "length [1 / 2 :: real] < windowSize \<and> length (calculateEnvelope [1 / 2]) \<noteq> 1"
  by (simp add: windowSize_def calculateEnvelope_def frame_starts_short)

subsection \<open>Silent buffers\<close>

lemma sum_list_all_zero: "(\<And>x. x \<in> set xs \<Longrightarrow> f x = (0::real)) \<Longrightarrow> sum_list (map f xs) = 0"
  by (induction xs) auto

lemma dft_real_silent: "dft_real (replicate n 0) k = 0"
  unfolding dft_real_def by (rule sum_list_all_zero) simp

lemma dft_imag_silent: "dft_imag (replicate n 0) k = 0"
  unfolding dft_imag_def by (rule sum_list_all_zero) simp

lemma simpleFFT_silent: "simpleFFT (replicate n 0) = replicate n 0"
  by (simp add: simpleFFT_def dft_real_silent dft_imag_silent map_replicate_const)

lemma half_bins_less: "i \<in> set (half_bins fft) \<Longrightarrow> i < length fft"
  by (simp add: half_bins_def)

lemma centroid_silent: "calculateSpectralCentroid (replicate n 0) sr fftSize = 0"
proof -
  have "(\<Sum>i\<leftarrow>half_bins (replicate m (0::real)). replicate m (0::real) ! i) = 0" for m
    by (rule sum_list_all_zero) (simp add: half_bins_def)
  then show ?thesis
    by (simp add: calculateSpectralCentroid_def slice_replicate simpleFFT_silent)
qed

lemma chroma_step_zero: "chroma_step acc f 0 = acc"
  by (simp add: chroma_step_def)

lemma foldl_id: "(\<And>a x. g a x = a) \<Longrightarrow> foldl g a xs = a"
  by (induction xs) auto

lemma chroma_silent: "calculateChromaFeatures (replicate n 0) sr fftSize = replicate 12 0"
proof -
  have "foldl (\<lambda>acc i. chroma_step acc (real i * sr / real fftSize) (replicate m 0 ! i))
          a (half_bins (replicate m (0::real))) = a" for m a
  proof -
    have "\<And>bs. set bs \<subseteq> {..<m} \<Longrightarrow>
       foldl (\<lambda>acc i. chroma_step acc (real i * sr / real fftSize) (replicate m 0 ! i)) a bs = a"
    proof -
      fix bs show "set bs \<subseteq> {..<m} \<Longrightarrow>
       foldl (\<lambda>acc i. chroma_step acc (real i * sr / real fftSize) (replicate m 0 ! i)) a bs = a"
        by (induction bs arbitrary: a) (auto simp: chroma_step_zero)
    qed
    moreover have "set (half_bins (replicate m (0::real))) \<subseteq> {..<m}"
      by (auto simp: half_bins_def)
    ultimately show ?thesis by blast
  qed
  then show ?thesis
    by (simp add: calculateChromaFeatures_def slice_replicate simpleFFT_silent)
qed

lemma tempo_silent: "detectTempo (replicate n 0) sr = Fin 120"
  by (simp add: detectTempo_def slice_replicate sum_squares_replicate)

lemma envelope_silent:
  "calculateEnvelope (replicate n 0) = replicate (length (frame_starts n windowSize hopSize 0)) 0"
  by (simp add: calculateEnvelope_def slice_replicate sum_squares_replicate map_replicate_const)

lemma js_max_zeros: "js_max (replicate (Suc k) 0) = Fin 0"
  by (induction k) auto

lemma adsr_silent:
  "adsr_attack (calculateADSR (replicate n 0) sr) = 0
   \<and> adsr_decay (calculateADSR (replicate n 0) sr) = 0"
proof (cases "length (frame_starts n windowSize hopSize 0)")
  case 0
  then show ?thesis
    by (simp add: calculateADSR_def Let_def envelope_silent)
next
  case (Suc k)
  then show ?thesis
    by (simp add: calculateADSR_def Let_def envelope_silent js_max_zeros del: replicate_Suc)
       (simp)
qed

lemma frame_starts_nonempty: "0 < h \<Longrightarrow> w < len \<Longrightarrow> frame_starts len w h 0 \<noteq> []"
  by (simp add: frame_starts.simps [of len w h 0])

lemma sum_zeros_between:
  "0 \<le> lo \<Longrightarrow> hi \<le> int m \<Longrightarrow> (\<Sum>i\<leftarrow>[lo .. hi - 1]. replicate m (0::real) ! nat i) = 0"
  by (rule sum_list_all_zero) auto

lemma sustain_silent_is_NaN:
  assumes "windowSize < n"
  shows "adsr_sustain (calculateADSR (replicate n 0) sr) = NaN"
proof -
  have "frame_starts n windowSize hopSize 0 \<noteq> []"
    using assms by (intro frame_starts_nonempty) (simp_all add: hopSize_def)
  then obtain k where k: "length (frame_starts n windowSize hopSize 0) = Suc k"
    by (cases "frame_starts n windowSize hopSize 0") auto
  have fi: "first_index ((\<le>) 0) (replicate (Suc k) (0::real)) = Some 0"
    by simp
  show ?thesis
    by (simp add: calculateADSR_def Let_def envelope_silent k js_max_zeros js_div_def fi
        sum_zeros_between floor_le_iff del: replicate_Suc)
qed


lemma map_const_on: "(\<And>x. x \<in> set xs \<Longrightarrow> f x = c) \<Longrightarrow> map f xs = replicate (length xs) c"
  by (induction xs) auto

lemma mfcc_band_silent:
  assumes sr: "0 < sr" and i: "i < numFilters" and m: "1024 \<le> m"
  shows "mfcc_band (replicate m 0) sr 2048 i = Fin (ln (1 / 10 ^ 10))"
proof -
  define lo where "lo = \<lfloor>real i * sr / real (2 * numFilters) * real (2048::nat) / sr\<rfloor>"
  define hi where "hi = \<lfloor>real (i + 1) * sr / real (2 * numFilters) * real (2048::nat) / sr\<rfloor>"
  have lo0: "0 \<le> lo"
    using sr by (simp add: lo_def)
  have "real (i + 1) * sr / real (2 * numFilters) * real (2048::nat) / sr = real (i + 1) * 1024 / 13"
    using sr by (simp add: numFilters_def)
  also have "\<dots> \<le> 1024"
    using i by (simp add: numFilters_def)
  finally have "hi \<le> 1024"
    unfolding hi_def by (simp add: floor_le_iff)
  then have hi: "hi \<le> int m"
    using m by simp
  have range: "\<forall>j \<in> set [lo .. hi - 1]. 0 \<le> j \<and> j < int (length (replicate m (0::real)))"
    using lo0 hi by auto
  have sum: "(\<Sum>j\<leftarrow>[lo .. hi - 1]. replicate m (0::real) ! nat j) = 0"
    using lo0 hi by (rule sum_zeros_between)
  show ?thesis
    unfolding mfcc_band_def Let_def lo_def [symmetric] hi_def [symmetric]
    using range sum by simp
qed

lemma mfcc_silent:
  assumes "0 < sr" and "1024 \<le> n"
  shows "calculateMFCC (replicate n 0) sr 2048 = replicate 13 (Fin (ln (1 / 10 ^ 10)))"
proof -
  have "map (mfcc_band (replicate (min 2048 n) 0) sr 2048) [0..<numFilters]
      = replicate (length [0..<numFilters]) (Fin (ln (1 / 10 ^ 10)))"
    by (rule map_const_on) (use assms in \<open>simp add: mfcc_band_silent\<close>)
  then show ?thesis
    by (simp add: calculateMFCC_def slice_replicate simpleFFT_silent numFilters_def)
qed

lemma ln_eps_nonzero: "ln (1 / 10 ^ 10 :: real) \<noteq> 0"
  by simp

text \<open>
  C2. For every silent buffer and positive sample rate the spectral centroid is 0,
  every chroma element is 0, the tempo is 120, and attack and decay are 0. The mel-band
  values are not 0: with at least 1024 samples each of the thirteen is the logarithm of
  the floor \<open>1e-10\<close> that the code adds to the band sum.
\<close>

theorem silent_buffer_features:
  assumes "0 < sampleRate"
  shows "spectralCentroid (extractAudioFeatures (replicate n 0) sampleRate) = Fin 0
    \<and> chroma (extractAudioFeatures (replicate n 0) sampleRate) = replicate 12 0
    \<and> tempo (extractAudioFeatures (replicate n 0) sampleRate) = Fin 120
    \<and> attack (extractAudioFeatures (replicate n 0) sampleRate) = Fin 0
    \<and> decay (extractAudioFeatures (replicate n 0) sampleRate) = Fin 0
    \<and> (1024 \<le> n \<longrightarrow>
         mfcc (extractAudioFeatures (replicate n 0) sampleRate)
           = replicate 13 (Fin (ln (1 / 10 ^ 10))))"
  using assms
  by (simp add: extractAudioFeatures_def Let_def centroid_silent chroma_silent tempo_silent
      adsr_silent mfcc_silent)

theorem silent_buffer_features_witness:
  "(0::real) < 44100
   \<and> tempo (extractAudioFeatures (replicate 2048 0) 44100) = Fin 120
   \<and> mfcc (extractAudioFeatures (replicate 2048 0) 44100) = replicate 13 (Fin (ln (1 / 10 ^ 10)))"
proof -
  have h: "(0::real) < 44100" by simp
  show ?thesis using silent_buffer_features [OF h, of 2048] by simp
qed

text \<open>On 2048 zero samples at 44100 Hz the mel-band values are not all 0.\<close>

theorem silent_buffer_mel_counterexample:
  "\<not> (\<forall>v \<in> set (mfcc (extractAudioFeatures (replicate 2048 0) 44100)). v = Fin 0)"
proof -
  have "mfcc (extractAudioFeatures (replicate 2048 0) 44100) = replicate 13 (Fin (ln (1 / 10 ^ 10)))"
    by (simp add: extractAudioFeatures_def Let_def mfcc_silent)
  then show ?thesis
    using ln_eps_nonzero by simp
qed

subsection \<open>The spectrum of an impulse\<close>

lemma dft_real_impulse: "dft_real (1 # replicate n 0) k = 1"
proof -
  have "(\<Sum>j\<leftarrow>[1..<Suc n]. (1 # replicate n 0) ! j
           * cos (- 2 * pi * real k * real j / real (length (1 # replicate n (0::real))))) = 0"
    by (rule sum_list_all_zero) (auto simp: nth_Cons')
  then show ?thesis
    by (simp add: dft_real_def upt_conv_Cons del: upt_Suc)
qed

lemma dft_imag_impulse: "dft_imag (1 # replicate n 0) k = 0"
proof -
  have "(\<Sum>j\<leftarrow>[1..<Suc n]. (1 # replicate n 0) ! j
           * sin (- 2 * pi * real k * real j / real (length (1 # replicate n (0::real))))) = 0"
    by (rule sum_list_all_zero) (auto simp: nth_Cons')
  then show ?thesis
    by (simp add: dft_imag_def upt_conv_Cons del: upt_Suc)
qed

lemma simpleFFT_impulse: "simpleFFT (1 # replicate n 0) = replicate (Suc n) 1"
  by (simp add: simpleFFT_def dft_real_impulse dft_imag_impulse map_replicate_const
      del: upt_Suc replicate_Suc)

subsection \<open>Spectral rolloff\<close>







subsection \<open>Chroma vector\<close>

lemma js_rem_nonneg_iff: "0 \<le> js_rem r 12 \<longleftrightarrow> 0 \<le> r \<or> 12 dvd r"
proof (cases "0 \<le> r")
  case True
  then show ?thesis by (cases "r = 0") (simp_all add: js_rem_def)
next
  case False
  then have neg: "r < 0" by simp
  have "0 \<le> \<bar>r\<bar> mod 12" by simp
  then have "0 \<le> js_rem r 12 \<longleftrightarrow> \<bar>r\<bar> mod 12 = 0"
    using neg by (simp add: js_rem_def) linarith
  also have "\<dots> \<longleftrightarrow> 12 dvd r"
    by (simp add: dvd_eq_mod_eq_0 [symmetric])
  finally show ?thesis using False by simp
qed

lemma js_rem_eq_mod: "0 \<le> r \<or> 12 dvd r \<Longrightarrow> js_rem r 12 = r mod 12"
proof (cases "0 \<le> r")
  case True
  then show ?thesis by (cases "r = 0") (simp_all add: js_rem_def)
next
  case False
  assume "0 \<le> r \<or> 12 dvd r"
  with False have d: "12 dvd r" by simp
  then have "12 dvd \<bar>r\<bar>" by simp
  then have "\<bar>r\<bar> mod 12 = 0" by (simp only: dvd_eq_mod_eq_0)
  with d show ?thesis by (simp add: js_rem_def)
qed

lemma chromaIndex_eq_iff:
  "c < 12 \<Longrightarrow> chromaIndex f = int c \<longleftrightarrow>
     (let r = js_round (12 * log 2 (f / 440)) in (0 \<le> r \<or> 12 dvd r) \<and> r mod 12 = int c)"
  unfolding chromaIndex_def Let_def
  using js_rem_nonneg_iff [of "js_round (12 * log 2 (f / 440))"]
    js_rem_eq_mod [of "js_round (12 * log 2 (f / 440))"]
  by (metis of_nat_0_le_iff)

lemma length_chroma_step: "length (chroma_step acc f m) = length acc"
  by (simp add: chroma_step_def)

lemma chroma_step_nth:
  assumes "length acc = 12" and "c < 12"
  shows "chroma_step acc f m ! c = acc ! c + (if contributes_to f c then m else 0)"
proof (cases "80 < f \<and> f < 5000 \<and> 0 \<le> chromaIndex f \<and> chromaIndex f < 12")
  case True
  then have "nat (chromaIndex f) < 12" by linarith
  then have n: "nat (chromaIndex f) < length acc" using assms by simp
  have "nat (chromaIndex f) = c \<longleftrightarrow> contributes_to f c"
    using True chromaIndex_eq_iff [OF assms(2), of f]
    by (auto simp: contributes_to_def)
  then show ?thesis
    using True n by (auto simp: chroma_step_def)
next
  case False
  then have "\<not> contributes_to f c"
    using chromaIndex_eq_iff [OF assms(2), of f] assms(2)
    by (auto simp: contributes_to_def)
  then show ?thesis
    using False by (auto simp: chroma_step_def)
qed

lemma foldl_accumulate:
  assumes len: "\<And>acc x. length acc = 12 \<Longrightarrow> length (g acc x) = 12"
    and nth: "\<And>acc x. length acc = 12 \<Longrightarrow> g acc x ! c = acc ! c + v x"
    and a: "length a = 12"
  shows "length (foldl g a xs) = 12 \<and> foldl g a xs ! c = a ! c + (\<Sum>x\<leftarrow>xs. v x :: real)"
  using a
proof (induction xs arbitrary: a)
  case Nil
  then show ?case by simp
next
  case (Cons x xs)
  have "length (g a x) = 12" using Cons.prems by (rule len)
  from Cons.IH [OF this] nth [OF Cons.prems, of x]
  show ?case by (simp add: add.assoc)
qed


lemma chroma_first_window:
  assumes "c < 12"
  shows "length (calculateChromaFeatures xs sr n) = 12
    \<and> calculateChromaFeatures xs sr n ! c =
        (\<Sum>i\<leftarrow>half_bins (simpleFFT (slice xs 0 n)).
           if contributes_to (real i * sr / real n) c then simpleFFT (slice xs 0 n) ! i else 0)"
proof -
  let ?fft = "simpleFFT (slice xs 0 n)"
  have "length (foldl (\<lambda>acc i. chroma_step acc (real i * sr / real n) (?fft ! i))
            (replicate 12 0) (half_bins ?fft)) = 12
    \<and> foldl (\<lambda>acc i. chroma_step acc (real i * sr / real n) (?fft ! i))
            (replicate 12 0) (half_bins ?fft) ! c
      = replicate 12 0 ! c
        + (\<Sum>i\<leftarrow>half_bins ?fft. if contributes_to (real i * sr / real n) c then ?fft ! i else 0)"
    by (rule foldl_accumulate) (simp_all add: length_chroma_step chroma_step_nth assms)
  then show ?thesis
    using assms by (simp add: calculateChromaFeatures_def Let_def)
qed

lemma chroma_all_windows:
  assumes "c < 12"
  shows "length (AudioAnalyzer_calculateChromaFeatures xs sr) = 12
    \<and> AudioAnalyzer_calculateChromaFeatures xs sr ! c =
        (\<Sum>w\<leftarrow>frame_starts (length xs) 2048 2048 0.
           \<Sum>j\<leftarrow>[0..<length (simpleFFT (slice xs w (w + 2048)))].
             if contributes_to (real j * sr / 2048) c
             then \<bar>simpleFFT (slice xs w (w + 2048)) ! j\<bar> else 0)"
proof -
  let ?inner = "\<lambda>acc w. foldl (\<lambda>acc j. chroma_step acc (real j * sr / 2048)
                    \<bar>simpleFFT (slice xs w (w + 2048)) ! j\<bar>)
                  acc [0..<length (simpleFFT (slice xs w (w + 2048)))]"
  let ?v = "\<lambda>w. \<Sum>j\<leftarrow>[0..<length (simpleFFT (slice xs w (w + 2048)))].
             if contributes_to (real j * sr / 2048) c
             then \<bar>simpleFFT (slice xs w (w + 2048)) ! j\<bar> else 0"
  have inner: "length (?inner acc w) = 12 \<and> ?inner acc w ! c = acc ! c + ?v w"
    if "length acc = 12" for acc w
    by (rule foldl_accumulate) (simp_all add: length_chroma_step chroma_step_nth assms that)
  have "length (foldl ?inner (replicate 12 0) (frame_starts (length xs) 2048 2048 0)) = 12
    \<and> foldl ?inner (replicate 12 0) (frame_starts (length xs) 2048 2048 0) ! c
       = replicate 12 0 ! c + (\<Sum>w\<leftarrow>frame_starts (length xs) 2048 2048 0. ?v w)"
  proof (rule foldl_accumulate)
    show "\<And>acc w. length acc = 12 \<Longrightarrow> length (?inner acc w) = 12"
      using inner by blast
    show "\<And>acc w. length acc = 12 \<Longrightarrow> ?inner acc w ! c = acc ! c + ?v w"
      using inner by blast
    show "length (replicate 12 (0::real)) = 12" by simp
  qed
  then show ?thesis
    using assms by (simp add: AudioAnalyzer_calculateChromaFeatures_def Let_def)
qed

lemma js_round_log2:
  assumes x: "0 < x"
    and lo: "2 powr (2 * of_int r - 1) \<le> x ^ 24"
    and hi: "x ^ 24 < 2 powr (2 * of_int r + 1)"
  shows "js_round (12 * log 2 x) = r"
proof -
  have l24: "log 2 (x ^ 24) = 24 * log 2 x"
    using x by (simp add: log_nat_power)
  have "2 * of_int r - 1 \<le> log 2 (x ^ 24)"
    using lo x by (simp add: le_log_iff)
  then have a: "of_int r \<le> 12 * log 2 x + 1 / 2"
    using l24 by simp
  have "log 2 (x ^ 24) < 2 * of_int r + 1"
    using hi x by (simp add: log_less_iff)
  then have b: "12 * log 2 x + 1 / 2 < of_int r + 1"
    using l24 by simp
  show ?thesis
    unfolding js_round_def using a b by (simp add: floor_eq_iff)
qed

lemma round_bin4: "js_round (12 * log 2 (4 * 44100 / 2048 / 440)) = - 28"
proof (rule js_round_log2)
  show "(0::real) < 4 * 44100 / 2048 / 440" by simp
  have e: "(4 * 44100 / 2048 / 440 :: real) ^ 24 = 2205 ^ 24 / 11264 ^ 24"
    by (simp add: power_divide)
  show "2 powr (2 * real_of_int (- 28) - 1) \<le> (4 * 44100 / 2048 / 440 :: real) ^ 24"
    unfolding e by (simp add: powr_minus_divide divide_simps)
  show "(4 * 44100 / 2048 / 440 :: real) ^ 24 < 2 powr (2 * real_of_int (- 28) + 1)"
    unfolding e by (simp add: powr_minus_divide divide_simps)
qed


lemma impulse10_no_contribution:
  assumes "i \<in> set (half_bins (replicate 10 (1::real)))"
  shows "\<not> contributes_to (real i * 44100 / 2048) c"
proof (cases "i = 4")
  case True
  then show ?thesis
    using round_bin4 by (simp add: contributes_to_def Let_def)
next
  case False
  with assms have "i \<le> 3" by (simp add: half_bins_def)
  then have "real i * 44100 / 2048 \<le> 80" by simp
  then show ?thesis by (simp add: contributes_to_def)
qed

lemma impulse10_chroma_zero:
  assumes "c < 12"
  shows "calculateChromaFeatures (1 # replicate 9 0) 44100 2048 ! c = 0"
proof -
  have fft: "simpleFFT (slice (1 # replicate 9 0) 0 2048) = replicate 10 1"
    using simpleFFT_impulse [of 9] by (simp add: slice_def del: replicate_Suc)
  have "(\<Sum>i\<leftarrow>half_bins (replicate 10 (1::real)).
           if contributes_to (real i * 44100 / real (2048::nat)) c then replicate 10 (1::real) ! i else 0) = 0"
    by (rule sum_list_all_zero) (use impulse10_no_contribution in simp)
  then show ?thesis
    using chroma_first_window [OF assms, of "1 # replicate 9 0" 44100 2048, unfolded fft] by simp
qed

text \<open>
  C6. Both chroma functions return exactly 12 elements. Element \<open>c\<close> is the sum of
  the magnitudes of the bins that contribute to \<open>c\<close>: bins whose frequency lies
  strictly between 80 and 5000 and whose pitch number \<open>r\<close>, the rounded value of 12
  times the binary logarithm of the frequency over 440, is not negative or is a
  multiple of 12, with \<open>c\<close> the residue of \<open>r\<close> modulo 12; bins with any other
  negative \<open>r\<close> add nothing. \<open>InstrumentDetector\<close> sums over the lower half of the
  bins of the first window only, \<open>AudioAnalyzer\<close> over all bins of every window of
  its loop.
\<close>

theorem chroma_contributions:
  "length (calculateChromaFeatures channelData sampleRate fftSize) = 12
   \<and> length (AudioAnalyzer_calculateChromaFeatures channelData sampleRate) = 12
   \<and> (\<forall>c<12.
        calculateChromaFeatures channelData sampleRate fftSize ! c =
          (\<Sum>i\<leftarrow>half_bins (simpleFFT (slice channelData 0 fftSize)).
             if contributes_to (real i * sampleRate / real fftSize) c
             then simpleFFT (slice channelData 0 fftSize) ! i else 0)
        \<and> AudioAnalyzer_calculateChromaFeatures channelData sampleRate ! c =
          (\<Sum>w\<leftarrow>frame_starts (length channelData) 2048 2048 0.
             \<Sum>j\<leftarrow>[0..<length (simpleFFT (slice channelData w (w + 2048)))].
               if contributes_to (real j * sampleRate / 2048) c
               then \<bar>simpleFFT (slice channelData w (w + 2048)) ! j\<bar> else 0))"
  using chroma_first_window [of 0 channelData sampleRate fftSize]
    chroma_all_windows [of 0 channelData sampleRate]
    chroma_first_window [of _ channelData sampleRate fftSize]
    chroma_all_windows [of _ channelData sampleRate]
  by simp

theorem chroma_contributions_witness:
  "(8::nat) < 12 \<and> calculateChromaFeatures (1 # replicate 9 0) 44100 2048 ! 8 = 0"
proof -
  have fft: "simpleFFT (slice (1 # replicate 9 0) 0 2048) = replicate 10 1"
    using simpleFFT_impulse [of 9] by (simp add: slice_def del: replicate_Suc)
  have z: "(\<Sum>i\<leftarrow>half_bins (replicate 10 (1::real)).
           if contributes_to (real i * 44100 / real (2048::nat)) 8 then replicate 10 (1::real) ! i else 0) = 0"
    by (rule sum_list_all_zero) (use impulse10_no_contribution in simp)
  show ?thesis
    using z chroma_contributions [of "1 # replicate 9 0" 44100 2048, unfolded fft] by simp
qed

text \<open>
  For a 10-sample impulse at 44100 Hz, bin 4 has magnitude 1, frequency 86.13 and pitch
  number -28, whose residue modulo 12 is 8; chroma element 8 is nevertheless 0.
\<close>

theorem chroma_low_bin_counterexample:
  "simpleFFT (1 # replicate 9 0) ! 4 = 1
   \<and> 80 \<le> (4 * 44100 / 2048 :: real) \<and> (4 * 44100 / 2048 :: real) \<le> 5000
   \<and> js_round (12 * log 2 (4 * 44100 / 2048 / 440)) mod 12 = 8
   \<and> calculateChromaFeatures (1 # replicate 9 0) 44100 2048 ! 8 = 0"
proof (intro conjI)
  show "simpleFFT (1 # replicate 9 0) ! 4 = 1"
    by (simp only: simpleFFT_impulse) simp
  show "js_round (12 * log 2 (4 * 44100 / 2048 / 440)) mod 12 = 8"
    by (simp only: round_bin4) simp
  show "calculateChromaFeatures (1 # replicate 9 0) 44100 2048 ! 8 = 0"
    by (rule impulse10_chroma_zero) simp
qed simp_all

subsection \<open>Learning gaps\<close>

lemma keys_table_set: "fst ` set (table_set t k n) = insert k (fst ` set t)"
  by (auto simp: table_set_def image_iff split: if_splits prod.splits) force+

lemma positive_table_set: "positive_counts t \<Longrightarrow> 0 < n \<Longrightarrow> positive_counts (table_set t k n)"
  by (auto simp: positive_counts_def table_set_def split: if_splits)

lemma keys_table_add: "fst ` set (table_add t k c) = insert k (fst ` set t)"
  by (simp add: table_add_def keys_table_set)

lemma positive_table_add: "positive_counts t \<Longrightarrow> 0 < c \<Longrightarrow> positive_counts (table_add t k c)"
  by (simp add: table_add_def positive_table_set)

lemma merge_table_inv:
  "positive_counts t \<Longrightarrow> positive_counts es \<Longrightarrow>
   positive_counts (merge_table t es) \<and> fst ` set (merge_table t es) = fst ` set t \<union> fst ` set es"
  unfolding merge_table_def
proof (induction es arbitrary: t)
  case Nil
  then show ?case by simp
next
  case (Cons e es)
  obtain k c where e: "e = (k, c)" by (cases e)
  have c: "0 < c" using Cons.prems(2) by (simp add: positive_counts_def e)
  have es: "positive_counts es" using Cons.prems(2) by (simp add: positive_counts_def)
  have t': "positive_counts (table_add t k c)"
    using Cons.prems(1) c by (rule positive_table_add)
  from Cons.IH [OF t' es] show ?case
    by (auto simp: e keys_table_add)
qed

lemma falsy_entry_iff: "positive_counts t \<Longrightarrow> falsy_entry t k \<longleftrightarrow> k \<notin> fst ` set t"
proof (cases "map_of t k")
  case None
  then have "k \<notin> fst ` set t" by (simp add: map_of_eq_None_iff)
  with None show ?thesis by (simp add: falsy_entry_def)
next
  case (Some n)
  assume p: "positive_counts t"
  from Some have "(k, n) \<in> set t" by (rule map_of_SomeD)
  with p have "0 < n" and "k \<in> fst ` set t"
    by (auto simp: positive_counts_def image_iff) force
  with Some show ?thesis by (simp add: falsy_entry_def)
qed


lemma instruments_aggregate:
  "instruments (aggregate a name) = merge_table (instruments a) (file_instruments (analyzeSingleMIDI name))"
  by (simp add: aggregate_def Let_def)

lemma keyword_fold_inv:
  "positive_counts t \<Longrightarrow>
   positive_counts (foldl (\<lambda>t keyword. if P keyword then table_set t (f keyword) 1 else t) t kws)"
  by (induction kws arbitrary: t) (auto simp: positive_table_set)

lemma positive_file_instruments: "positive_counts (file_instruments (analyzeSingleMIDI name))"
proof -
  have e: "positive_counts []" by (simp add: positive_counts_def)
  define t0 where "t0 = foldl (\<lambda>t keyword. if str_includes (toLowerCase name) keyword
      then table_set t (mapKeywordToInstrument keyword) 1 else t) [] instrumentKeywords"
  have p0: "positive_counts t0"
    unfolding t0_def using e by (rule keyword_fold_inv)
  show ?thesis
    unfolding analyzeSingleMIDI_def Let_def t0_def [symmetric]
    using p0 e by (simp add: positive_table_set)
qed

lemma positive_instruments_fold:
  "positive_counts (instruments a) \<Longrightarrow> positive_counts (instruments (foldl aggregate a files))"
proof (induction files arbitrary: a)
  case Nil
  then show ?case by simp
next
  case (Cons name files)
  have "positive_counts (instruments (aggregate a name))"
    using merge_table_inv [OF Cons.prems positive_file_instruments]
    by (simp add: instruments_aggregate)
  then show ?case
    using Cons.IH by simp
qed

lemma missing_entry_iff:
  assumes "positive_counts instrs" and "X \<in> set commonInstruments"
  shows "''Missing '' @ X @ '' training data'' \<in> set (identifyLearningGaps instrs tmps gnrs ks)
     \<longleftrightarrow> X \<notin> fst ` set instrs"
proof -
  have "''Missing '' @ X @ '' training data''
          \<in> (\<lambda>i. ''Missing '' @ i @ '' training data'') ` {i \<in> set commonInstruments. falsy_entry instrs i}
        \<longleftrightarrow> falsy_entry instrs X"
    using assms(2) by auto
  then show ?thesis
    using falsy_entry_iff [OF assms(1), of X]
    by (auto simp: identifyLearningGaps_def push_if_def)
qed

lemma no_keyword_file:
  assumes "\<forall>kw \<in> set instrumentKeywords. \<not> str_includes (toLowerCase name) kw"
  shows "file_instruments (analyzeSingleMIDI name) = [(''Piano'', 1)]"
proof -
  have "foldl (\<lambda>t keyword. if str_includes (toLowerCase name) keyword
                then table_set t (mapKeywordToInstrument keyword) 1 else t) t kws = t"
    if "\<forall>kw \<in> set kws. \<not> str_includes (toLowerCase name) kw" for kws t
    using that by (induction kws arbitrary: t) auto
  from this [OF assms] show ?thesis
    by (simp add: analyzeSingleMIDI_def Let_def table_set_def)
qed

lemma piano_only_fold:
  assumes "\<forall>name \<in> set files. \<forall>kw \<in> set instrumentKeywords. \<not> str_includes (toLowerCase name) kw"
    and "instruments a = [(''Piano'', Suc n)]"
  shows "instruments (foldl aggregate a files) = [(''Piano'', Suc n + length files)]"
  using assms
proof (induction files arbitrary: a n)
  case Nil
  then show ?case by simp
next
  case (Cons name files)
  have f: "file_instruments (analyzeSingleMIDI name) = [(''Piano'', 1)]"
    using Cons.prems(1) by (intro no_keyword_file) simp
  have "instruments (aggregate a name) = [(''Piano'', Suc (Suc n))]"
    using Cons.prems(2) f
    by (simp add: instruments_aggregate merge_table_def table_add_def table_set_def)
  from Cons.IH [OF _ this] Cons.prems(1) show ?case by simp
qed

lemma piano_only:
  assumes "files \<noteq> []"
    and "\<forall>name \<in> set files. \<forall>kw \<in> set instrumentKeywords. \<not> str_includes (toLowerCase name) kw"
  shows "instruments (analyzeMIDIFiles files) = [(''Piano'', length files)]"
proof -
  obtain name rest where files: "files = name # rest"
    using assms(1) by (cases files) auto
  let ?a0 = "\<lparr>instruments = [], genres = [], tempos = [], keys = [],
      totalFiles = length files, learningGaps = []\<rparr>"
  have f: "file_instruments (analyzeSingleMIDI name) = [(''Piano'', 1)]"
    using assms(2) files by (intro no_keyword_file) simp
  have "instruments (aggregate ?a0 name) = [(''Piano'', Suc 0)]"
    using f by (simp add: instruments_aggregate merge_table_def table_add_def table_set_def)
  then have "instruments (foldl aggregate (aggregate ?a0 name) rest) = [(''Piano'', Suc 0 + length rest)]"
    using assms(2) files by (intro piano_only_fold) simp_all
  then show ?thesis
    by (simp add: analyzeMIDIFiles_def Let_def files)
qed


lemma gaps_unfold:
  "learningGaps (analyzeMIDIFiles files) =
     identifyLearningGaps (instruments (analyzeMIDIFiles files)) (tempos (analyzeMIDIFiles files))
       (genres (analyzeMIDIFiles files)) (keys (analyzeMIDIFiles files))"
  by (simp add: analyzeMIDIFiles_def Let_def)

lemma positive_instruments: "positive_counts (instruments (analyzeMIDIFiles files))"
proof -
  have "positive_counts []" by (simp add: positive_counts_def)
  then show ?thesis
    using positive_instruments_fold [of "\<lparr>instruments = [], genres = [], tempos = [], keys = [],
      totalFiles = length files, learningGaps = []\<rparr>" files]
    by (simp add: analyzeMIDIFiles_def Let_def)
qed

lemma piano_only_gaps:
  assumes "0 < n"
  shows "filter (\<lambda>g. starts_with g ''Missing'') (identifyLearningGaps [(''Piano'', n)] tmps gnrs ks)
      = [''Missing Guitar training data'', ''Missing Bass training data'',
         ''Missing Drums training data'', ''Missing Saxophone training data'',
         ''Missing Trumpet training data'']"
  using assms
  by (simp add: identifyLearningGaps_def commonInstruments_def falsy_entry_def push_if_def)

text \<open>
  C7. The learning gaps contain a missing-training-data entry for exactly those of
  Piano, Guitar, Bass, Drums, Saxophone and Trumpet that are absent from the accumulated
  instrument table. A file whose name contains no instrument keyword is counted as
  Piano, so for a corpus of such files that is not empty the table holds Piano alone and
  the missing entries are the five for Guitar, Bass, Drums, Saxophone and Trumpet.
\<close>

theorem learning_gaps_missing_instruments:
  "(\<forall>X \<in> set commonInstruments.
      ''Missing '' @ X @ '' training data'' \<in> set (learningGaps (analyzeMIDIFiles files))
      \<longleftrightarrow> X \<notin> fst ` set (instruments (analyzeMIDIFiles files)))
   \<and> (files \<noteq> []
        \<and> (\<forall>name \<in> set files. \<forall>kw \<in> set instrumentKeywords.
              \<not> str_includes (toLowerCase name) kw)
      \<longrightarrow> instruments (analyzeMIDIFiles files) = [(''Piano'', length files)]
          \<and> filter (\<lambda>g. starts_with g ''Missing'') (learningGaps (analyzeMIDIFiles files))
              = [''Missing Guitar training data'', ''Missing Bass training data'',
                 ''Missing Drums training data'', ''Missing Saxophone training data'',
                 ''Missing Trumpet training data''])"
proof (intro conjI ballI impI)
  fix X assume "X \<in> set commonInstruments"
  then show "''Missing '' @ X @ '' training data'' \<in> set (learningGaps (analyzeMIDIFiles files))
      \<longleftrightarrow> X \<notin> fst ` set (instruments (analyzeMIDIFiles files))"
    unfolding gaps_unfold by (intro missing_entry_iff positive_instruments)
next
  assume h: "files \<noteq> [] \<and> (\<forall>name \<in> set files. \<forall>kw \<in> set instrumentKeywords.
              \<not> str_includes (toLowerCase name) kw)"
  then show p: "instruments (analyzeMIDIFiles files) = [(''Piano'', length files)]"
    by (intro piano_only) simp_all
  have "0 < length files" using h by simp
  then show "filter (\<lambda>g. starts_with g ''Missing'') (learningGaps (analyzeMIDIFiles files))
              = [''Missing Guitar training data'', ''Missing Bass training data'',
                 ''Missing Drums training data'', ''Missing Saxophone training data'',
                 ''Missing Trumpet training data'']"
    unfolding gaps_unfold p by (rule piano_only_gaps)
qed

lemma song_no_keyword:
  "\<forall>kw \<in> set instrumentKeywords. \<not> str_includes (toLowerCase ''song1.mid'') kw"
  by (simp add: instrumentKeywords_def toLowerCase_def lower_char_def)

theorem learning_gaps_missing_instruments_witness:
  "[''song1.mid''] \<noteq> []
   \<and> list_all (\<lambda>kw. \<not> str_includes (toLowerCase ''song1.mid'') kw) instrumentKeywords
   \<and> instruments (analyzeMIDIFiles [''song1.mid'']) = [(''Piano'', 1)]
   \<and> ''Piano'' \<in> set commonInstruments
   \<and> ''Missing Piano training data'' \<notin> set (learningGaps (analyzeMIDIFiles [''song1.mid'']))"
proof -
  have h: "[''song1.mid''] \<noteq> []
     \<and> (\<forall>name \<in> set [''song1.mid'']. \<forall>kw \<in> set instrumentKeywords.
         \<not> str_includes (toLowerCase name) kw)"
    using song_no_keyword by simp
  have c: "''Piano'' \<in> set commonInstruments" by (simp add: commonInstruments_def)
  have i: "instruments (analyzeMIDIFiles [''song1.mid'']) = [(''Piano'', 1)]"
    using learning_gaps_missing_instruments [of "[''song1.mid'']"] h by simp
  have "''Missing '' @ ''Piano'' @ '' training data'' \<in> set (learningGaps (analyzeMIDIFiles [''song1.mid'']))
      \<longleftrightarrow> ''Piano'' \<notin> fst ` set (instruments (analyzeMIDIFiles [''song1.mid'']))"
    using learning_gaps_missing_instruments [of "[''song1.mid'']"] c by blast
  then have "''Missing Piano training data'' \<notin> set (learningGaps (analyzeMIDIFiles [''song1.mid'']))"
    unfolding i by simp
  then show ?thesis using h c i by (simp add: list_all_iff)
qed

text \<open>
  For five file names without any of the keywords the list has eight entries: five
  missing instruments, Piano not among them, and three diversity entries.
\<close>

theorem learning_gaps_five_files_counterexample:
  "length files5 = 5
   \<and> list_all (\<lambda>name. list_all (\<lambda>kw. \<not> str_includes (toLowerCase name) kw)
          [''piano'', ''guitar'', ''bass'', ''drums'', ''saxophone'', ''trumpet'']) files5
   \<and> learningGaps (analyzeMIDIFiles files5)
      = [''Missing Guitar training data'', ''Missing Bass training data'',
         ''Missing Drums training data'', ''Missing Saxophone training data'',
         ''Missing Trumpet training data'',
         ''Limited tempo diversity - add more varied BPM ranges'',
         ''Limited genre diversity - add more musical styles'',
         ''Limited key diversity - add more key signatures'']"
  by code_simp

end
